theory Spec2Isabelle
  imports Complex_Main
begin

section \<open>Host strings\<close>

text \<open>
  Source strings are Python \<open>str\<close> values.  They are modelled as \<^typ>\<open>string\<close>, each
  \<^typ>\<open>char\<close> standing for one code point below 256.  The character classes below are
  the ones of Python 3 on that range.
\<close>

definition py_isspace :: "char \<Rightarrow> bool" where
  "py_isspace c = ((of_char c :: nat) \<in> {9, 10, 11, 12, 13, 28, 29, 30, 31, 32, 133, 160})"

definition py_lower_char :: "char \<Rightarrow> char" where
  "py_lower_char c =
     (let n = (of_char c :: nat) in
      if 65 \<le> n \<and> n \<le> 90 then char_of (n + 32)
      else if 192 \<le> n \<and> n \<le> 222 \<and> n \<noteq> 215 then char_of (n + 32)
      else c)"

definition py_lower :: "string \<Rightarrow> string" where
  "py_lower s = map py_lower_char s"

definition py_lstrip :: "string \<Rightarrow> string" where
  "py_lstrip s = dropWhile py_isspace s"

definition py_rstrip :: "string \<Rightarrow> string" where
  "py_rstrip s = rev (dropWhile py_isspace (rev s))"

definition py_strip :: "string \<Rightarrow> string" where
  "py_strip s = py_rstrip (py_lstrip s)"

text \<open>\<open>s.split(sep)\<close> for a one-character separator: never empty, one more piece than
  there are separators.\<close>

fun py_split :: "char \<Rightarrow> string \<Rightarrow> string list" where
  "py_split sep [] = [[]]"
| "py_split sep (c # cs) =
     (if c = sep then [] # py_split sep cs
      else (case py_split sep cs of
              [] \<Rightarrow> [[c]]
            | p # ps \<Rightarrow> (c # p) # ps))"

fun py_join :: "char \<Rightarrow> string list \<Rightarrow> string" where
  "py_join sep [] = []"
| "py_join sep [p] = p"
| "py_join sep (p # q # ps) = p @ sep # py_join sep (q # ps)"

definition is_digit :: "char \<Rightarrow> bool" where
  "is_digit c = (48 \<le> (of_char c :: nat) \<and> (of_char c :: nat) \<le> 57)"

definition digit_val :: "char \<Rightarrow> nat" where
  "digit_val c = (of_char c :: nat) - 48"

definition starts_with :: "string \<Rightarrow> string \<Rightarrow> bool" where
  "starts_with p s = (take (length p) s = p)"

text \<open>\<open>str(n)\<close> for a natural number.\<close>

fun py_str_nat :: "nat \<Rightarrow> string" where
  "py_str_nat n =
     (if n < 10 then [char_of (48 + n)] else py_str_nat (n div 10) @ [char_of (48 + n mod 10)])"

text \<open>\<open>s.split()\<close>: the maximal runs of non-whitespace characters.\<close>

fun py_words_aux :: "string \<Rightarrow> string \<Rightarrow> string list" where
  "py_words_aux w [] = (if w = [] then [] else [w])"
| "py_words_aux w (c # cs) =
     (if py_isspace c then (if w = [] then py_words_aux [] cs else w # py_words_aux [] cs)
      else py_words_aux (w @ [c]) cs)"

definition py_words :: "string \<Rightarrow> string list" where
  "py_words s = py_words_aux [] s"

text \<open>\<open>int(s)\<close> on a string: surrounding whitespace, an optional sign, decimal digits
  with single underscores between them; \<open>None\<close> is \<open>ValueError\<close>.\<close>

fun py_int_digits :: "nat \<Rightarrow> string \<Rightarrow> nat option" where
  "py_int_digits acc [] = Some acc"
| "py_int_digits acc (c # cs) =
     (if is_digit c then py_int_digits (10 * acc + digit_val c) cs
      else if c = CHR ''_'' then
        (case cs of
           [] \<Rightarrow> None
         | d # _ \<Rightarrow> if is_digit d then py_int_digits acc cs else None)
      else None)"

definition py_int_unsigned :: "string \<Rightarrow> nat option" where
  "py_int_unsigned s =
     (case s of [] \<Rightarrow> None | c # _ \<Rightarrow> if is_digit c then py_int_digits 0 s else None)"

definition py_int :: "string \<Rightarrow> int option" where
  "py_int s =
     (case py_strip s of
        [] \<Rightarrow> None
      | c # cs \<Rightarrow>
          if c = CHR ''-'' then map_option (\<lambda>n. - int n) (py_int_unsigned cs)
          else if c = CHR ''+'' then map_option int (py_int_unsigned cs)
          else map_option int (py_int_unsigned (c # cs)))"

text \<open>\<open>str(n)\<close> for an integer.\<close>

definition py_str_int :: "int \<Rightarrow> string" where
  "py_str_int i = (if i < 0 then CHR ''-'' # py_str_nat (nat (- i)) else py_str_nat (nat i))"

section \<open>Values and exceptions\<close>

text \<open>
  A Gopa value is a Python object: \<open>None\<close>, a \<open>bool\<close>, an \<open>int\<close>, a \<open>str\<close>, or a reference
  to a \<open>list\<close> or a \<open>dict\<close> in the store (lists and dictionaries are shared by reference;
  an object literal evaluates to a \<open>dict\<close>).  Floats are not modelled: an evaluation that
  would produce one ends in the outcome \<open>Unsupported\<close>.
\<close>

datatype "value" = VNone | VBool bool | VInt int | VStr string | VList nat | VDict nat

text \<open>The exceptions of the source, the four control signals among them.  A \<open>TypeError\<close> is
  raised by Python itself (an operator applied to operands it has no meaning for); its
  message is not modelled.\<close>

datatype exn =
    RuntimeError string
  | NameError string
  | TypeError
  | ValueError string
  | ReturnSignal "value"
  | BreakSignal
  | ContinueSignal
  | StopSignal

text \<open>A Python \<open>dict\<close> with string keys, as an association list in insertion order.
  \<open>d[k] = v\<close>: an existing key keeps its place, a new key goes last.\<close>

fun dict_set :: "'k \<Rightarrow> 'v \<Rightarrow> ('k \<times> 'v) list \<Rightarrow> ('k \<times> 'v) list" where
  "dict_set k v [] = [(k, v)]"
| "dict_set k v ((k', v') # kvs) = (if k' = k then (k, v) # kvs else (k', v') # dict_set k v kvs)"

section \<open>Permissions (permissions.py)\<close>

record permissions =
  network :: bool
  files :: bool
  graphics :: bool
  sound :: bool
  packages :: bool
  python_ffi :: bool
  server :: bool
  timers :: bool
  cron :: bool
  state :: bool

text \<open>The assignments before \<open>if perm_string:\<close>.\<close>

definition Permissions_default :: permissions where
  "Permissions_default =
     \<lparr> network = False, files = False, graphics = False, sound = False,
       packages = True, python_ffi = False, server = False, timers = False,
       cron = False, state = False \<rparr>"

text \<open>\<open>perms = [p.strip().lower() for p in perm_string.split(',')]\<close>\<close>

definition perms_of :: "string \<Rightarrow> string list" where
  "perms_of perm_string = map (\<lambda>p. py_lower (py_strip p)) (py_split (CHR '','') perm_string)"

definition Permissions_init :: "string \<Rightarrow> permissions" where
  "Permissions_init perm_string =
     (if perm_string \<noteq> [] then
        (let perms = perms_of perm_string in
         \<lparr> network = (''network'' \<in> set perms),
           files = (''files'' \<in> set perms),
           graphics = (''graphics'' \<in> set perms),
           sound = (''sound'' \<in> set perms),
           packages = (''packages'' \<in> set perms),
           python_ffi = (''python'' \<in> set perms \<or> ''python_ffi'' \<in> set perms),
           server = (''server'' \<in> set perms),
           timers = (''timers'' \<in> set perms),
           cron = (''cron'' \<in> set perms),
           state = (''state'' \<in> set perms) \<rparr>)
      else Permissions_default)"

text \<open>A \<open>check_*\<close> method returns \<open>None\<close> or raises \<open>RuntimeError(message)\<close>.\<close>

definition check_network :: "permissions \<Rightarrow> exn + unit" where
  "check_network p = (if \<not> network p then Inl (RuntimeError ''Network access not allowed'') else Inr ())"

definition check_files :: "permissions \<Rightarrow> exn + unit" where
  "check_files p = (if \<not> files p then Inl (RuntimeError ''File access not allowed'') else Inr ())"

definition check_graphics :: "permissions \<Rightarrow> exn + unit" where
  "check_graphics p = (if \<not> graphics p then Inl (RuntimeError ''Graphics access not allowed'') else Inr ())"

definition check_python_ffi :: "permissions \<Rightarrow> exn + unit" where
  "check_python_ffi p = (if \<not> python_ffi p then Inl (RuntimeError ''Python interop not allowed'') else Inr ())"

definition check_server :: "permissions \<Rightarrow> exn + unit" where
  "check_server p = (if \<not> server p then Inl (RuntimeError ''Server access not allowed'') else Inr ())"

definition check_timers :: "permissions \<Rightarrow> exn + unit" where
  "check_timers p =
     (if \<not> timers p \<and> \<not> graphics p then Inl (RuntimeError ''Timer access not allowed'') else Inr ())"

definition check_cron :: "permissions \<Rightarrow> exn + unit" where
  "check_cron p =
     (if \<not> cron p \<and> \<not> timers p then Inl (RuntimeError ''Cron access not allowed'') else Inr ())"

text \<open>
  The wording of the claim about the constructor, to be compared with \<open>perms_of\<close>: a name
  \<^emph>\<open>appears in the comma-separated list\<close> \<open>perm_string\<close> when the string is a non-empty
  sequence of entries free of commas, joined by commas, and one entry is the name in any
  letter case, with white space before and after it at most.
\<close>

definition name_appears_in_list :: "string \<Rightarrow> string \<Rightarrow> bool" where
  "name_appears_in_list name perm_string =
     (\<exists>entries before core after.
        entries \<noteq> [] \<and> perm_string = py_join (CHR '','') entries \<and>
        (\<forall>e \<in> set entries. CHR '','' \<notin> set e) \<and>
        before @ core @ after \<in> set entries \<and>
        (\<forall>c \<in> set before. py_isspace c) \<and> (\<forall>c \<in> set after. py_isspace c) \<and>
        py_lower core = name)"

section \<open>Scheduler (graphics_stub.py)\<close>

text \<open>
  Time stamps are Python floats.  The scheduler only adds and compares them, so the model
  is polymorphic in the time type \<open>'t\<close> and uses nothing but \<open>+\<close>, \<open>\<le>\<close> and \<open>0\<close> on it.
  \<open>'b\<close> is the type of task bodies (statement lists, compared as Python compares them) and
  \<open>'w\<close> the state of the interpreter that every task refers to.
\<close>

record ('t, 'b) after_task =
  a_time :: 't
  a_body :: 'b

record ('t, 'b) every_task =
  e_interval :: 't
  e_body :: 'b
  e_last_run :: 't

text \<open>A named job is a dictionary object of its own: \<open>j_id\<close> stands for its identity.\<close>

record ('t, 'b) job_task =
  j_id :: nat
  j_interval :: 't
  j_body :: 'b
  j_last_run :: 't

record cron_fields =
  f_minute :: string
  f_hour :: string
  f_day :: string
  f_month :: string
  f_dow :: string

record 'b cron_task =
  c_schedule :: string
  c_fields :: cron_fields
  c_body :: 'b

record ('t, 'b, 'w) scheduler =
  virtual_time :: bool
  current_time :: 't
  jobs :: "(string \<times> ('t, 'b) job_task) list"
  after_tasks :: "('t, 'b) after_task list"
  every_tasks :: "('t, 'b) every_task list"
  cron_tasks :: "'b cron_task list"
  running :: bool
  fresh_id :: nat
  interpreter :: 'w

definition Scheduler_init :: "bool \<Rightarrow> 'w \<Rightarrow> ('t::zero, 'b, 'w) scheduler" where
  "Scheduler_init vt w =
     \<lparr> virtual_time = vt, current_time = 0, jobs = [], after_tasks = [], every_tasks = [],
       cron_tasks = [], running = False, fresh_id = 0, interpreter = w \<rparr>"

text \<open>\<open>wall\<close> is the reading of \<open>time.time()\<close> in wall-clock mode.\<close>

definition Scheduler_after ::
  "'t \<Rightarrow> 't::plus \<Rightarrow> 'b \<Rightarrow> ('t, 'b, 'w) scheduler \<Rightarrow> ('t, 'b, 'w) scheduler" where
  "Scheduler_after wall seconds body s =
     (let run_time = (if virtual_time s then current_time s + seconds else wall + seconds)
      in s\<lparr>after_tasks := after_tasks s @ [\<lparr>a_time = run_time, a_body = body\<rparr>]\<rparr>)"

definition Scheduler_every ::
  "'t \<Rightarrow> 't \<Rightarrow> 'b \<Rightarrow> ('t, 'b, 'w) scheduler \<Rightarrow> ('t, 'b, 'w) scheduler" where
  "Scheduler_every wall seconds body s =
     (let last_run = (if virtual_time s then current_time s else wall)
      in s\<lparr>every_tasks := every_tasks s @
            [\<lparr>e_interval = seconds, e_body = body, e_last_run = last_run\<rparr>]\<rparr>)"

definition Scheduler_job ::
  "'t \<Rightarrow> string \<Rightarrow> 't \<Rightarrow> 'b \<Rightarrow> ('t, 'b, 'w) scheduler \<Rightarrow> ('t, 'b, 'w) scheduler" where
  "Scheduler_job wall name seconds body s =
     (let last_run = (if virtual_time s then current_time s else wall)
      in s\<lparr>jobs := dict_set name
              \<lparr>j_id = fresh_id s, j_interval = seconds, j_body = body, j_last_run = last_run\<rparr>
              (jobs s),
            fresh_id := Suc (fresh_id s)\<rparr>)"

definition stop_job :: "string \<Rightarrow> ('t, 'b, 'w) scheduler \<Rightarrow> ('t, 'b, 'w) scheduler" where
  "stop_job name s = s\<lparr>jobs := filter (\<lambda>(n, j). n \<noteq> name) (jobs s)\<rparr>"

subsection \<open>Cron schedules\<close>

text \<open>The tail \<open>(\d{1,2}):(\d{2})\<close> of the two friendly patterns with a time of day,
  matched at the head of \<open>r\<close>; the groups are returned.\<close>

definition match_hhmm :: "string \<Rightarrow> (string \<times> string) option" where
  "match_hhmm r =
     (case r of
        d1 # d2 # rest \<Rightarrow>
          if is_digit d1 \<and> is_digit d2 then
            (case rest of
               c # m1 # m2 # _ \<Rightarrow>
                 if c = CHR '':'' \<and> is_digit m1 \<and> is_digit m2
                 then Some ([d1, d2], [m1, m2]) else None
             | _ \<Rightarrow> None)
          else if is_digit d1 \<and> d2 = CHR '':'' then
            (case rest of
               m1 # m2 # _ \<Rightarrow>
                 if is_digit m1 \<and> is_digit m2 then Some ([d1], [m1, m2]) else None
             | _ \<Rightarrow> None)
          else None
      | _ \<Rightarrow> None)"

definition weekday_names :: "string list" where
  "weekday_names =
     [''monday'', ''tuesday'', ''wednesday'', ''thursday'', ''friday'', ''saturday'', ''sunday'']"

text \<open>\<open>every (monday|...|sunday) at (\d{1,2}):(\d{2})\<close>: the alternatives in order, with
  the index of the day that matched.\<close>

fun match_weekday :: "nat \<Rightarrow> string list \<Rightarrow> string \<Rightarrow> (nat \<times> string \<times> string) option" where
  "match_weekday i [] l = None"
| "match_weekday i (d # ds) l =
     (let p = ''every '' @ d @ '' at '' in
      case (if starts_with p l then match_hhmm (drop (length p) l) else None) of
        Some (h, m) \<Rightarrow> Some (i, h, m)
      | None \<Rightarrow> match_weekday (Suc i) ds l)"

definition wildcard_fields :: cron_fields where
  "wildcard_fields = \<lparr>f_minute = ''*'', f_hour = ''*'', f_day = ''*'', f_month = ''*'', f_dow = ''*''\<rparr>"

definition parse_cron :: "string \<Rightarrow> exn + cron_fields" where
  "parse_cron schedule =
     (let l = py_lower schedule in
      if starts_with ''every minute'' l then Inr wildcard_fields
      else if starts_with ''every hour'' l then Inr (wildcard_fields\<lparr>f_minute := ''0''\<rparr>)
      else
        (case (if starts_with ''every day at '' l
               then match_hhmm (drop (length ''every day at '') l) else None) of
           Some (h, m) \<Rightarrow> Inr (wildcard_fields\<lparr>f_minute := m, f_hour := h\<rparr>)
         | None \<Rightarrow>
            (case match_weekday 0 weekday_names l of
               Some (i, h, m) \<Rightarrow>
                 Inr (wildcard_fields\<lparr>f_minute := m, f_hour := h, f_dow := py_str_nat i\<rparr>)
             | None \<Rightarrow>
                (case py_words schedule of
                   [p0, p1, p2, p3, p4] \<Rightarrow>
                     Inr \<lparr>f_minute = p0, f_hour = p1, f_day = p2, f_month = p3, f_dow = p4\<rparr>
                 | _ \<Rightarrow> Inl (ValueError (''Invalid cron schedule: '' @ schedule))))))"

definition Scheduler_cron ::
  "string \<Rightarrow> 'b \<Rightarrow> ('t, 'b, 'w) scheduler \<Rightarrow> exn + ('t, 'b, 'w) scheduler" where
  "Scheduler_cron schedule body s =
     (case parse_cron schedule of
        Inl e \<Rightarrow> Inl e
      | Inr cron_fields \<Rightarrow>
          Inr (s\<lparr>cron_tasks := cron_tasks s @
                 [\<lparr>c_schedule = schedule, c_fields = cron_fields, c_body = body\<rparr>]\<rparr>))"

record datetime =
  dt_minute :: int
  dt_hour :: int
  dt_day :: int
  dt_month :: int
  dt_weekday :: int

definition matches :: "int \<Rightarrow> string \<Rightarrow> bool" where
  "matches v field =
     (if field = ''*'' then True
      else (case py_int field of Some n \<Rightarrow> n = v | None \<Rightarrow> False))"

definition matches_cron :: "datetime \<Rightarrow> cron_fields \<Rightarrow> bool" where
  "matches_cron dt flds =
     (matches (dt_minute dt) (f_minute flds) \<and>
      matches (dt_hour dt) (f_hour flds) \<and>
      matches (dt_day dt) (f_day flds) \<and>
      matches (dt_month dt) (f_month flds) \<and>
      matches (dt_weekday dt) (f_dow flds))"

subsection \<open>Stepping virtual time\<close>

text \<open>
  A task body is run by \<open>for stmt in task['body']: task['interpreter'].execute(stmt)\<close> inside
  \<open>try ... except Exception: pass\<close>.  The model takes that as a parameter \<open>run\<close>: it maps the
  state before the body to the state after it (the body may register tasks, stop jobs or
  wait, so the scheduler is part of that state), and \<open>None\<close> is a body that does not return.
  \<open>fromtimestamp\<close> is \<open>datetime.fromtimestamp\<close>, \<open>None\<close> where it raises.  The loops over
  \<open>every_tasks\<close> and \<open>cron_tasks\<close> walk the live lists, which a body may extend, so they are
  partial functions; the other two walk a copy.  \<open>list.remove\<close> cannot fail in \<open>step\<close>: every
  task of the copy is still in the list when its turn comes.
\<close>

type_synonym ('t, 'b, 'w) runner =
  "'b \<Rightarrow> ('t, 'b, 'w) scheduler \<Rightarrow> ('t, 'b, 'w) scheduler option"

fun after_loop ::
  "('t::ord, 'b, 'w) runner \<Rightarrow> ('t, 'b) after_task list \<Rightarrow> ('t, 'b, 'w) scheduler
     \<Rightarrow> ('t, 'b, 'w) scheduler option" where
  "after_loop run [] s = Some s"
| "after_loop run (task # rest) s =
     (if current_time s \<ge> a_time task then
        Option.bind (run (a_body task) s)
          (\<lambda>s'. after_loop run rest (s'\<lparr>after_tasks := remove1 task (after_tasks s')\<rparr>))
      else after_loop run rest s)"

partial_function (option) every_loop ::
  "('t::{ord,plus}, 'b, 'w) runner \<Rightarrow> nat \<Rightarrow> ('t, 'b, 'w) scheduler
     \<Rightarrow> ('t, 'b, 'w) scheduler option" where
  "every_loop run i s =
     (if i < length (every_tasks s) then
        (let task = every_tasks s ! i in
         if current_time s \<ge> e_last_run task + e_interval task then
           Option.bind (run (e_body task) s)
             (\<lambda>s'. every_loop run (Suc i)
                (s'\<lparr>every_tasks := (every_tasks s')[i := task\<lparr>e_last_run := current_time s'\<rparr>]\<rparr>))
         else every_loop run (Suc i) s)
      else Some s)"

fun jobs_loop ::
  "('t::{ord,plus}, 'b, 'w) runner \<Rightarrow> (string \<times> ('t, 'b) job_task) list \<Rightarrow> ('t, 'b, 'w) scheduler
     \<Rightarrow> ('t, 'b, 'w) scheduler option" where
  "jobs_loop run [] s = Some s"
| "jobs_loop run ((name, job) # rest) s =
     (if current_time s \<ge> j_last_run job + j_interval job then
        Option.bind (run (j_body job) s)
          (\<lambda>s'. jobs_loop run rest
             (s'\<lparr>jobs := map (\<lambda>(n, j). if j_id j = j_id job
                                        then (n, j\<lparr>j_last_run := current_time s'\<rparr>) else (n, j))
                           (jobs s')\<rparr>))
      else jobs_loop run rest s)"

partial_function (option) cron_loop ::
  "('t, 'b, 'w) runner \<Rightarrow> datetime \<Rightarrow> nat \<Rightarrow> ('t, 'b, 'w) scheduler
     \<Rightarrow> ('t, 'b, 'w) scheduler option" where
  "cron_loop run now i s =
     (if i < length (cron_tasks s) then
        (let task = cron_tasks s ! i in
         if matches_cron now (c_fields task) then
           Option.bind (run (c_body task) s) (\<lambda>s'. cron_loop run now (Suc i) s')
         else cron_loop run now (Suc i) s)
      else Some s)"

datatype step_result = Returned | Raised

definition step ::
  "('t::{ord,plus}, 'b, 'w) runner \<Rightarrow> ('t \<Rightarrow> datetime option) \<Rightarrow> 't \<Rightarrow> ('t, 'b, 'w) scheduler
     \<Rightarrow> (step_result \<times> ('t, 'b, 'w) scheduler) option" where
  "step run fromtimestamp dt s =
     (if \<not> virtual_time s then Some (Returned, s)
      else
        (let s1 = s\<lparr>current_time := current_time s + dt\<rparr> in
         Option.bind (after_loop run (after_tasks s1) s1) (\<lambda>s2.
         Option.bind (every_loop run 0 s2) (\<lambda>s3.
         Option.bind (jobs_loop run (jobs s3) s3) (\<lambda>s4.
           (case fromtimestamp (current_time s4) of
              None \<Rightarrow> Some (Raised, s4)
            | Some now \<Rightarrow>
                Option.bind (cron_loop run now 0 s4) (\<lambda>s5. Some (Returned, s5))))))))"

fun run_steps ::
  "('t::{ord,plus}, 'b, 'w) runner \<Rightarrow> ('t \<Rightarrow> datetime option) \<Rightarrow> 't list \<Rightarrow> ('t, 'b, 'w) scheduler
     \<Rightarrow> (step_result \<times> ('t, 'b, 'w) scheduler) option" where
  "run_steps run fromtimestamp [] s = Some (Returned, s)"
| "run_steps run fromtimestamp (dt # dts) s =
     (case step run fromtimestamp dt s of
        Some (Returned, s') \<Rightarrow> run_steps run fromtimestamp dts s'
      | r \<Rightarrow> r)"

text \<open>An instance of \<open>datetime.fromtimestamp\<close>: UTC.\<close>

definition civil_from_days :: "int \<Rightarrow> int \<times> int \<times> int" where
  "civil_from_days days =
     (let z = days + 719468;
          era = z div 146097;
          doe = z - era * 146097;
          yoe = (doe - doe div 1460 + doe div 36524 - doe div 146096) div 365;
          doy = doe - (365 * yoe + yoe div 4 - yoe div 100);
          mp = (5 * doy + 2) div 153;
          d = doy - (153 * mp + 2) div 5 + 1;
          m = (if mp < 10 then mp + 3 else mp - 9);
          y = yoe + era * 400 + (if m \<le> 2 then 1 else 0)
      in (y, m, d))"

definition utc_fromtimestamp :: "rat \<Rightarrow> datetime option" where
  "utc_fromtimestamp t =
     (let secs = \<lfloor>t\<rfloor>; days = secs div 86400; rem = secs mod 86400 in
      case civil_from_days days of
        (y, m, d) \<Rightarrow>
          if y < 1 \<or> 9999 < y then None
          else Some \<lparr>dt_minute = rem div 60 mod 60, dt_hour = rem div 3600,
                     dt_day = d, dt_month = m, dt_weekday = (days + 3) mod 7\<rparr>)"

definition bump_run :: "('b \<Rightarrow> 'w \<Rightarrow> 'w) \<Rightarrow> ('t, 'b, 'w) runner" where
  "bump_run g body s = Some (s\<lparr>interpreter := g body (interpreter s)\<rparr>)"

fun clock_readings :: "'t::plus \<Rightarrow> 't list \<Rightarrow> 't list" where
  "clock_readings t [] = []"
| "clock_readings t (dt # dts) = (t + dt) # clock_readings (t + dt) dts"

definition count_firing :: "'b \<Rightarrow> nat \<Rightarrow> nat" where
  "count_firing body n = Suc n"

definition every_minute_scheduler :: "(rat, string, nat) scheduler" where
  "every_minute_scheduler =
     \<lparr> virtual_time = True, current_time = 0, jobs = [], after_tasks = [], every_tasks = [],
       cron_tasks = [\<lparr>c_schedule = ''every minute'', c_fields = wildcard_fields, c_body = ''tick''\<rparr>],
       running = False, fresh_id = 0, interpreter = 0 \<rparr>"

section \<open>Syntax trees (ast\_nodes.py)\<close>

text \<open>
  The node classes of expressions and statements that lexer, parser and evaluator are
  followed through.  The classes left out are the string operations and the leaves and
  statements that talk to the outside (network, files, graphics, Python calls, packages,
  the server, and the statements that register tasks with the scheduler).  A number literal
  is an \<open>int\<close>, or a \<open>float\<close> kept as the text it was read from.  A call in statement position
  is the class \<open>FunctionCall\<close> too; it is \<open>FunctionCallStatement\<close> here.
\<close>

datatype number = IntNum int | FloatNum string

datatype expr =
    NumberLiteral number
  | StringLiteral string
  | BooleanLiteral bool
  | NothingLiteral
  | PiLiteral
  | Identifier string
  | BinaryOp expr string expr
  | UnaryOp string expr
  | PropertyAccess expr string
  | IndexAccess expr expr
  | ListLiteral "expr list"
  | DictionaryLiteral "(string \<times> expr) list"
  | ObjectLiteral "(string \<times> expr) list"
  | FunctionCall string "expr list"
  | FindExpression expr expr
  | FilterExpression expr expr
  | MapExpression expr expr

datatype stmt =
    Assignment expr expr
  | Mutation expr string expr
  | SayStatement "expr list"
  | PrintStatement expr
  | IfStatement expr "stmt list" "stmt list option"
  | RepeatForever "stmt list"
  | RepeatTimes expr "stmt list"
  | RepeatUntil expr "stmt list"
  | DoUntil "stmt list" expr
  | BreakStatement
  | ContinueStatement
  | StopStatement
  | FunctionDef string "string list" "stmt list"
  | ReturnStatement "expr option"
  | ListAdd expr expr
  | FunctionCallStatement string "expr list"

section \<open>Tokens and lexer (lexer.py)\<close>

text \<open>
  Modelled from the spec: the classes \<open>Token\<close> and \<open>TokenType\<close> of the module \<open>tokens\<close>,
  which lexer and parser import.  A token is a kind, an optional literal payload, a line and
  a column.  A kind is modelled by the name the code gives it, so \<open>TokenType.TIMES_OP\<close> is
  \<open>''TIMES_OP''\<close>.
\<close>

type_synonym TokenType = string

datatype token_value = NoValue | NumValue number | StrValue string

record token =
  ttype :: TokenType
  tvalue :: token_value
  tline :: nat
  tcolumn :: nat

definition Token :: "TokenType \<Rightarrow> token_value \<Rightarrow> nat \<Rightarrow> nat \<Rightarrow> token" where
  "Token ty v l c = \<lparr>ttype = ty, tvalue = v, tline = l, tcolumn = c\<rparr>"

record lexer =
  source :: string
  pos :: nat
  line :: nat
  column :: nat

definition Lexer_init :: "string \<Rightarrow> lexer" where
  "Lexer_init s = \<lparr>source = s, pos = 0, line = 1, column = 1\<rparr>"

definition current_char :: "lexer \<Rightarrow> char option" where
  "current_char L = (if pos L \<ge> length (source L) then None else Some (source L ! pos L))"

definition peek :: "lexer \<Rightarrow> char option" where
  "peek L = (if pos L + 1 \<ge> length (source L) then None else Some (source L ! (pos L + 1)))"

definition advance :: "lexer \<Rightarrow> lexer" where
  "advance L =
     (if pos L < length (source L) \<and> source L ! pos L = CHR 0x0A
      then L\<lparr>line := line L + 1, column := 1, pos := pos L + 1\<rparr>
      else L\<lparr>column := column L + 1, pos := pos L + 1\<rparr>)"

text \<open>\<open>self.text[i:j]\<close> for \<open>0 \<le> i\<close>.\<close>

definition slice :: "string \<Rightarrow> nat \<Rightarrow> nat \<Rightarrow> string" where
  "slice s i j = take (j - i) (drop i s)"

definition py_isdigit :: "char \<Rightarrow> bool" where
  "py_isdigit c = (is_digit c \<or> (of_char c :: nat) \<in> {178, 179, 185})"

definition py_isalpha :: "char \<Rightarrow> bool" where
  "py_isalpha c =
     (let n = (of_char c :: nat) in
      (65 \<le> n \<and> n \<le> 90) \<or> (97 \<le> n \<and> n \<le> 122) \<or> n = 170 \<or> n = 181 \<or> n = 186 \<or>
      (192 \<le> n \<and> n \<le> 214) \<or> (216 \<le> n \<and> n \<le> 246) \<or> 248 \<le> n)"

definition py_isalnum :: "char \<Rightarrow> bool" where
  "py_isalnum c = (py_isalpha c \<or> py_isdigit c \<or> (of_char c :: nat) \<in> {188, 189, 190})"

function skip_whitespace :: "lexer \<Rightarrow> lexer" where
  "skip_whitespace L =
     (case current_char L of
        Some c \<Rightarrow> if c \<in> {CHR '' '', CHR 0x09, CHR 0x0D} then skip_whitespace (advance L) else L
      | None \<Rightarrow> L)"
  by pat_completeness auto
termination
  by (relation "measure (\<lambda>L. length (source L) - pos L)")
     (auto simp: current_char_def advance_def split: if_splits)

declare skip_whitespace.simps [simp del]

function skip_to_eol :: "lexer \<Rightarrow> lexer" where
  "skip_to_eol L =
     (case current_char L of
        Some c \<Rightarrow> if c \<noteq> CHR 0x0A then skip_to_eol (advance L) else L
      | None \<Rightarrow> L)"
  by pat_completeness auto
termination
  by (relation "measure (\<lambda>L. length (source L) - pos L)")
     (auto simp: current_char_def advance_def split: if_splits)

declare skip_to_eol.simps [simp del]

definition skip_comment :: "lexer \<Rightarrow> lexer" where
  "skip_comment L = (if current_char L = Some (CHR ''#'') then skip_to_eol L else L)"

text \<open>The loop of \<open>read_number\<close>; the flag is \<open>has_dot\<close>.\<close>

function number_loop :: "bool \<Rightarrow> lexer \<Rightarrow> bool \<times> lexer" where
  "number_loop has_dot L =
     (case current_char L of
        Some c \<Rightarrow>
          if py_isdigit c \<or> c = CHR ''.'' then
            (if c = CHR ''.'' then
               (if has_dot then (has_dot, L) else number_loop True (advance L))
             else number_loop has_dot (advance L))
          else (has_dot, L)
      | None \<Rightarrow> (has_dot, L))"
  by pat_completeness auto
termination
  by (relation "measure (\<lambda>(d, L). length (source L) - pos L)")
     (auto simp: current_char_def advance_def split: if_splits)

declare number_loop.simps [simp del]

text \<open>The exceptions that leave \<open>tokenize\<close>: \<open>ValueError\<close> from \<open>int\<close> or \<open>float\<close> on a
  run of digits that is no number, \<open>TypeError\<close> from \<open>value += None\<close> after a backslash that
  ends the text.\<close>

datatype lex_error = LexValueError string | LexTypeError

definition read_number :: "lexer \<Rightarrow> lex_error + (token \<times> lexer)" where
  "read_number L =
     (let start_pos = pos L; start_col = column L in
      case number_loop False L of
        (has_dot, L') \<Rightarrow>
          (let num_str = slice (source L') start_pos (pos L') in
           if has_dot then
             (if list_all (\<lambda>c. is_digit c \<or> c = CHR ''.'') num_str
              then Inr (Token ''NUMBER'' (NumValue (FloatNum num_str)) (line L') start_col, L')
              else Inl (LexValueError num_str))
           else
             (case py_int num_str of
                Some n \<Rightarrow> Inr (Token ''NUMBER'' (NumValue (IntNum n)) (line L') start_col, L')
              | None \<Rightarrow> Inl (LexValueError num_str))))"

text \<open>The loop of \<open>read_string\<close>; \<open>v\<close> is the value read so far.\<close>

function string_loop :: "char \<Rightarrow> string \<Rightarrow> lexer \<Rightarrow> lex_error + (string \<times> lexer)" where
  "string_loop quote v L =
     (case current_char L of
        Some c \<Rightarrow>
          if c \<noteq> quote then
            (if c = CHR 0x5C then
               (let L1 = advance L in
                case current_char L1 of
                  Some e \<Rightarrow>
                    string_loop quote
                      (v @ [if e = CHR ''n'' then CHR 0x0A
                            else if e = CHR ''t'' then CHR 0x09
                            else if e = CHR 0x5C then CHR 0x5C
                            else if e = quote then quote
                            else e])
                      (advance L1)
                | None \<Rightarrow> Inl LexTypeError)
             else string_loop quote (v @ [c]) (advance L))
          else Inr (v, L)
      | None \<Rightarrow> Inr (v, L))"
  by pat_completeness auto
termination
  by (relation "measure (\<lambda>(q, v, L). length (source L) - pos L)")
     (auto simp: current_char_def advance_def split: if_splits)

declare string_loop.simps [simp del]

text \<open>\<open>read_string\<close> is called on a quote character, which it takes as \<open>quote\<close>.\<close>

definition read_string :: "lexer \<Rightarrow> lex_error + (token \<times> lexer)" where
  "read_string L =
     (let start_col = column L in
      case current_char L of
        None \<Rightarrow> Inl LexTypeError
      | Some quote \<Rightarrow>
          (case string_loop quote [] (advance L) of
             Inl e \<Rightarrow> Inl e
           | Inr (v, L1) \<Rightarrow>
               (let L2 = (if current_char L1 = Some quote then advance L1 else L1)
                in Inr (Token ''STRING'' (StrValue v) (line L2) start_col, L2))))"

function ident_loop :: "lexer \<Rightarrow> lexer" where
  "ident_loop L =
     (case current_char L of
        Some c \<Rightarrow> if py_isalnum c \<or> c = CHR ''_'' then ident_loop (advance L) else L
      | None \<Rightarrow> L)"
  by pat_completeness auto
termination
  by (relation "measure (\<lambda>L. length (source L) - pos L)")
     (auto simp: current_char_def advance_def split: if_splits)

declare ident_loop.simps [simp del]

text \<open>The loop that reads \<open>next_word\<close> after the word \<open>is\<close>.\<close>

function next_word_loop :: "string \<Rightarrow> lexer \<Rightarrow> string \<times> lexer" where
  "next_word_loop next_word L =
     (case current_char L of
        Some c \<Rightarrow>
          if py_isalnum c \<or> c = CHR '' '' then
            (if c = CHR '' '' then
               (if next_word \<noteq> [] then (next_word, L) else next_word_loop next_word (advance L))
             else next_word_loop (next_word @ [c]) (advance L))
          else (next_word, L)
      | None \<Rightarrow> (next_word, L))"
  by pat_completeness auto
termination
  by (relation "measure (\<lambda>(w, L). length (source L) - pos L)")
     (auto simp: current_char_def advance_def split: if_splits)

declare next_word_loop.simps [simp del]

definition ends_with :: "string \<Rightarrow> string \<Rightarrow> bool" where
  "ends_with s suffix = (length suffix \<le> length s \<and> drop (length s - length suffix) s = suffix)"

text \<open>\<open>self.pos += n; self.column += n\<close>\<close>

definition jump :: "nat \<Rightarrow> lexer \<Rightarrow> lexer" where
  "jump n L = L\<lparr>pos := pos L + n, column := column L + n\<rparr>"

definition keyword_map :: "(string \<times> TokenType) list" where
  "keyword_map =
     [(''is'', ''IS''), (''becomes'', ''BECOMES''), (''say'', ''SAY''), (''print'', ''PRINT''),
      (''clear'', ''CLEAR''), (''show'', ''SHOW''), (''ask'', ''ASK''), (''for'', ''FOR''),
      (''if'', ''IF''), (''then'', ''THEN''), (''otherwise'', ''OTHERWISE''),
      (''repeat'', ''REPEAT''), (''forever'', ''FOREVER''), (''times'', ''TIMES''),
      (''until'', ''UNTIL''), (''do'', ''DO''), (''break'', ''BREAK''),
      (''continue'', ''CONTINUE''), (''stop'', ''STOP''), (''define'', ''DEFINE''),
      (''with'', ''WITH''), (''return'', ''RETURN''), (''end'', ''END''), (''when'', ''WHEN''),
      (''match'', ''MATCH''), (''to'', ''TO''), (''add'', ''ADD''), (''remove'', ''REMOVE''),
      (''from'', ''FROM''), (''at'', ''AT''), (''sort'', ''SORT''), (''reverse'', ''REVERSE''),
      (''shuffle'', ''SHUFFLE''), (''find'', ''FIND''), (''in'', ''IN''), (''filter'', ''FILTER''),
      (''where'', ''WHERE''), (''map'', ''MAP''), (''using'', ''USING''), (''item'', ''ITEM''),
      (''dictionary'', ''DICTIONARY''), (''object'', ''OBJECT''), (''split'', ''SPLIT''),
      (''by'', ''BY''), (''join'', ''JOIN''), (''replace'', ''REPLACE''), (''get'', ''GET''),
      (''write'', ''WRITE''), (''read'', ''READ''), (''file'', ''FILE''), (''create'', ''CREATE''),
      (''canvas'', ''CANVAS''), (''draw'', ''DRAW''), (''circle'', ''CIRCLE''),
      (''rectangle'', ''RECTANGLE''), (''line'', ''LINE''), (''text'', ''TEXT''),
      (''color'', ''COLOR''), (''size'', ''SIZE''), (''mouse'', ''MOUSE''),
      (''clicks'', ''CLICKS''), (''on'', ''ON''), (''wait'', ''WAIT''), (''seconds'', ''SECONDS''),
      (''after'', ''AFTER''), (''every'', ''EVERY''), (''and'', ''AND''), (''or'', ''OR''),
      (''not'', ''NOT''), (''plus'', ''PLUS''), (''minus'', ''MINUS''),
      (''increase'', ''INCREASE''), (''decrease'', ''DECREASE''), (''yes'', ''YES''),
      (''no'', ''NO''), (''number'', ''NUMBER_TYPE''), (''screen'', ''SCREEN''),
      (''table'', ''TABLE''), (''headers'', ''HEADERS''), (''data'', ''DATA''),
      (''rows'', ''ROWS''), (''use'', ''USE''), (''install'', ''INSTALL''),
      (''python'', ''PYTHON''), (''call'', ''CALL''), (''server'', ''SERVER''),
      (''port'', ''PORT''), (''job'', ''JOB''), (''cron'', ''CRON''), (''true'', ''TRUE''),
      (''false'', ''FALSE''), (''nothing'', ''NOTHING''), (''pi'', ''PI''),
      (''equals'', ''EQUALS'')]"

text \<open>The look-back of the word \<open>times\<close>: the twenty characters before it, lower-cased and
  stripped, end in \<open>repeat\<close> or in a digit.\<close>

definition times_context :: "lexer \<Rightarrow> nat \<Rightarrow> bool" where
  "times_context L start_pos =
     (let lookback_start = start_pos - 20;
          context_before = py_strip (py_lower (slice (source L) lookback_start start_pos))
      in list_ex (ends_with context_before) (''repeat'' # map (\<lambda>d. [d]) ''0123456789''))"

text \<open>The three speculative look-aheads; \<open>None\<close> is the path that restores the saved
  position and falls through.\<close>

definition try_does_not_equal :: "lexer \<Rightarrow> nat \<Rightarrow> (token \<times> lexer) option" where
  "try_does_not_equal L start_col =
     (let L1 = advance L in
      if py_lower (slice (source L1) (pos L1) (pos L1 + 3)) = ''not'' then
        (let L2 = jump 3 L1 in
         if slice (source L2) (pos L2) (pos L2 + 1) = '' '' then
           (let L3 = jump 1 L2 in
            if py_lower (slice (source L3) (pos L3) (pos L3 + 5)) = ''equal''
            then (let L4 = jump 5 L3 in Some (Token ''DOES_NOT_EQUAL'' NoValue (line L4) start_col, L4))
            else None)
         else None)
      else None)"

definition try_is_comparison :: "lexer \<Rightarrow> nat \<Rightarrow> (token \<times> lexer) option" where
  "try_is_comparison L start_col =
     (case next_word_loop [] (advance L) of
        (next_word, L1) \<Rightarrow>
          if next_word = ''greater'' then
            (if py_lower (slice (source L1) (pos L1) (pos L1 + 5)) = '' than''
             then (let L2 = jump 5 L1 in Some (Token ''IS_GREATER_THAN'' NoValue (line L2) start_col, L2))
             else None)
          else if next_word = ''less'' then
            (if py_lower (slice (source L1) (pos L1) (pos L1 + 5)) = '' than''
             then (let L2 = jump 5 L1 in Some (Token ''IS_LESS_THAN'' NoValue (line L2) start_col, L2))
             else None)
          else if next_word = ''at'' then
            (if py_lower (slice (source L1) (pos L1) (pos L1 + 6)) = '' least''
             then (let L2 = jump 6 L1 in Some (Token ''IS_AT_LEAST'' NoValue (line L2) start_col, L2))
             else if py_lower (slice (source L1) (pos L1) (pos L1 + 4)) = '' most''
             then (let L2 = jump 4 L1 in Some (Token ''IS_AT_MOST'' NoValue (line L2) start_col, L2))
             else None)
          else None)"

definition try_divided_by :: "lexer \<Rightarrow> nat \<Rightarrow> (token \<times> lexer) option" where
  "try_divided_by L start_col =
     (let L1 = advance L in
      if py_lower (slice (source L1) (pos L1) (pos L1 + 3)) = ''by ''
      then (let L2 = jump 3 L1 in Some (Token ''DIVIDED'' NoValue (line L2) start_col, L2))
      else None)"

definition read_identifier_or_keyword :: "lexer \<Rightarrow> token \<times> lexer" where
  "read_identifier_or_keyword L0 =
     (let start_pos = pos L0; start_col = column L0;
          L = ident_loop L0;
          word = py_lower (slice (source L) start_pos (pos L))
      in
      if word = ''times'' then
        (let peek_char = current_char L in
         if peek_char \<in> {Some (CHR '' ''), Some (CHR 0x0A), None} \<and> times_context L start_pos
         then (Token ''TIMES'' NoValue (line L) start_col, L)
         else (Token ''TIMES_OP'' NoValue (line L) start_col, L))
      else
        (case (if word = ''does'' \<and> peek L = Some (CHR '' '')
               then try_does_not_equal L start_col else None) of
           Some r \<Rightarrow> r
         | None \<Rightarrow>
        (case (if word = ''is'' \<and> current_char L = Some (CHR '' '')
               then try_is_comparison L start_col else None) of
           Some r \<Rightarrow> r
         | None \<Rightarrow>
        (case (if word = ''divided'' \<and> current_char L = Some (CHR '' '')
               then try_divided_by L start_col else None) of
           Some r \<Rightarrow> r
         | None \<Rightarrow>
        (case map_of keyword_map word of
           Some ty \<Rightarrow> (Token ty NoValue (line L) start_col, L)
         | None \<Rightarrow> (Token ''IDENTIFIER'' (StrValue word) (line L) start_col, L))))))"

text \<open>The loop of \<open>tokenize\<close>, with the tokens appended so far; \<open>None\<close> is a loop that does
  not end.\<close>

partial_function (option) tokenize_loop ::
  "lexer \<Rightarrow> token list \<Rightarrow> (lex_error + token list \<times> lexer) option" where
  "tokenize_loop L tokens =
     (if pos L < length (source L) then
        (let L0 = skip_whitespace L in
         case current_char L0 of
           None \<Rightarrow> Some (Inr (tokens, L0))
         | Some c \<Rightarrow>
             if c = CHR ''#'' then tokenize_loop (skip_comment L0) tokens
             else if c = CHR 0x0A then
               tokenize_loop (advance L0) (tokens @ [Token ''NEWLINE'' NoValue (line L0) (column L0)])
             else if py_isdigit c then
               (case read_number L0 of
                  Inl e \<Rightarrow> Some (Inl e)
                | Inr (tok, L1) \<Rightarrow> tokenize_loop L1 (tokens @ [tok]))
             else if c = CHR 0x22 \<or> c = CHR 0x27 then
               (case read_string L0 of
                  Inl e \<Rightarrow> Some (Inl e)
                | Inr (tok, L1) \<Rightarrow> tokenize_loop L1 (tokens @ [tok]))
             else if c = CHR ''.'' then
               tokenize_loop (advance L0) (tokens @ [Token ''DOT'' NoValue (line L0) (column L0)])
             else if c = CHR ''['' then
               tokenize_loop (advance L0) (tokens @ [Token ''LBRACKET'' NoValue (line L0) (column L0)])
             else if c = CHR '']'' then
               tokenize_loop (advance L0) (tokens @ [Token ''RBRACKET'' NoValue (line L0) (column L0)])
             else if c = CHR '','' then
               tokenize_loop (advance L0) (tokens @ [Token ''COMMA'' NoValue (line L0) (column L0)])
             else if c = CHR ''='' then tokenize_loop (advance L0) tokens
             else if py_isalpha c \<or> c = CHR ''_'' then
               (case read_identifier_or_keyword L0 of
                  (tok, L1) \<Rightarrow> tokenize_loop L1 (tokens @ [tok]))
             else tokenize_loop (advance L0) tokens)
      else Some (Inr (tokens, L)))"

declare tokenize_loop.simps [code]

definition tokenize :: "string \<Rightarrow> (lex_error + token list) option" where
  "tokenize s =
     (case tokenize_loop (Lexer_init s) [] of
        None \<Rightarrow> None
      | Some (Inl e) \<Rightarrow> Some (Inl e)
      | Some (Inr (tokens, L)) \<Rightarrow> Some (Inr (tokens @ [Token ''EOF'' NoValue (line L) (column L)])))"

section \<open>Parser (parser.py)\<close>

text \<open>
  The parser holds the list of tokens and an index into it (\<open>ppos\<close>, the attribute \<open>pos\<close> of
  the class).  A parsing method returns its result with the parser it leaves, or raises
  \<open>SyntaxError\<close>; \<open>NotModelled\<close> stands for the branches that are not followed here: the
  forms of \<open>parse_factor\<close> that call \<open>parse_expression\<close> again (brackets, \<open>at\<close>, call
  arguments), the literals and expressions with a parsing method of their own, and the
  statements outside the syntax trees above.
\<close>

record parser =
  tokens :: "token list"
  ppos :: nat

definition Parser_init :: "token list \<Rightarrow> parser" where
  "Parser_init ts = \<lparr>tokens = ts, ppos = 0\<rparr>"

definition current_token :: "parser \<Rightarrow> token option" where
  "current_token P = (if ppos P \<ge> length (tokens P) then None else Some (tokens P ! ppos P))"

definition advance_token :: "parser \<Rightarrow> parser" where
  "advance_token P = (if ppos P < length (tokens P) then P\<lparr>ppos := ppos P + 1\<rparr> else P)"

text \<open>\<open>SyntaxError\<close> with what was expected, or nothing for \<open>Unexpected token\<close>, and the
  token found.\<close>

datatype 'a parsed =
    Parsed 'a parser
  | SyntaxError "TokenType option" "token option"
  | NotModelled

definition expect :: "TokenType \<Rightarrow> parser \<Rightarrow> token parsed" where
  "expect token_type P =
     (case current_token P of
        None \<Rightarrow> SyntaxError (Some token_type) None
      | Some t \<Rightarrow>
          if ttype t \<noteq> token_type then SyntaxError (Some token_type) (Some t)
          else Parsed t (advance_token P))"

text \<open>\<open>match(*token_types)\<close>\<close>

definition match_types :: "TokenType list \<Rightarrow> parser \<Rightarrow> bool" where
  "match_types token_types P =
     (case current_token P of None \<Rightarrow> False | Some t \<Rightarrow> ttype t \<in> set token_types)"

function skip_newlines :: "parser \<Rightarrow> parser" where
  "skip_newlines P =
     (if match_types [''NEWLINE''] P then skip_newlines (advance_token P) else P)"
  by pat_completeness auto
termination
  by (relation "measure (\<lambda>P. length (tokens P) - ppos P)")
     (auto simp: match_types_def current_token_def advance_token_def split: if_splits)

declare skip_newlines.simps [simp del]

text \<open>The value of an \<open>IDENTIFIER\<close> or \<open>STRING\<close> token is a string, that of a \<open>NUMBER\<close> token
  a number.\<close>

definition string_value :: "token \<Rightarrow> string option" where
  "string_value t = (case tvalue t of StrValue s \<Rightarrow> Some s | _ \<Rightarrow> None)"

definition number_value :: "token \<Rightarrow> number option" where
  "number_value t = (case tvalue t of NumValue n \<Rightarrow> Some n | _ \<Rightarrow> None)"

text \<open>The loop \<open>while True\<close> that ends the \<open>IDENTIFIER\<close> branch of \<open>parse_factor\<close>.\<close>

function postfix_loop :: "expr \<Rightarrow> parser \<Rightarrow> expr parsed" where
  "postfix_loop e P =
     (if match_types [''DOT''] P then
        (case expect ''IDENTIFIER'' (advance_token P) of
           Parsed t P1 \<Rightarrow>
             (case string_value t of
                Some prop \<Rightarrow> postfix_loop (PropertyAccess e prop) P1
              | None \<Rightarrow> NotModelled)
         | SyntaxError x y \<Rightarrow> SyntaxError x y
         | NotModelled \<Rightarrow> NotModelled)
      else if match_types [''LBRACKET''] P then NotModelled
      else if match_types [''AT''] P then NotModelled
      else Parsed e P)"
  by pat_completeness auto
termination
  by (relation "measure (\<lambda>(e, P). length (tokens P) - ppos P)")
     (auto simp: match_types_def current_token_def advance_token_def expect_def
           split: if_splits option.splits)

declare postfix_loop.simps [simp del]

definition parse_factor :: "parser \<Rightarrow> expr parsed" where
  "parse_factor P =
     (if match_types [''NUMBER''] P then
        (case Option.bind (current_token P) number_value of
           Some n \<Rightarrow> Parsed (NumberLiteral n) (advance_token P)
         | None \<Rightarrow> NotModelled)
      else if match_types [''STRING''] P then
        (case Option.bind (current_token P) string_value of
           Some s \<Rightarrow> Parsed (StringLiteral s) (advance_token P)
         | None \<Rightarrow> NotModelled)
      else if match_types [''TRUE''] P then Parsed (BooleanLiteral True) (advance_token P)
      else if match_types [''FALSE''] P then Parsed (BooleanLiteral False) (advance_token P)
      else if match_types [''NOTHING''] P then Parsed NothingLiteral (advance_token P)
      else if match_types [''PI''] P then Parsed PiLiteral (advance_token P)
      else if match_types [''IDENTIFIER''] P then
        (case Option.bind (current_token P) string_value of
           None \<Rightarrow> NotModelled
         | Some name \<Rightarrow>
             (let P1 = advance_token P in
              if match_types [''DOT''] P1 then
                (case expect ''IDENTIFIER'' (advance_token P1) of
                   Parsed t P2 \<Rightarrow>
                     (case string_value t of
                        Some prop \<Rightarrow> postfix_loop (PropertyAccess (Identifier name) prop) P2
                      | None \<Rightarrow> NotModelled)
                 | SyntaxError x y \<Rightarrow> SyntaxError x y
                 | NotModelled \<Rightarrow> NotModelled)
              else if match_types [''LBRACKET''] P1 then NotModelled
              else if match_types [''AT''] P1 then NotModelled
              else if match_types [''NUMBER'', ''STRING'', ''IDENTIFIER'', ''TRUE'', ''FALSE'',
                                   ''NOTHING'', ''PI'', ''NOT''] P1 then NotModelled
              else postfix_loop (Identifier name) P1))
      else if match_types [''LBRACKET'', ''DICTIONARY'', ''OBJECT'', ''FIND'', ''FILTER'', ''MAP'',
                           ''SPLIT'', ''JOIN'', ''REPLACE'', ''GET'', ''READ'', ''CREATE'',
                           ''PYTHON''] P then NotModelled
      else SyntaxError None (current_token P))"

text \<open>
  The methods above \<open>parse_factor\<close>.  Each \<open>while\<close> loop is a function of the expression
  read so far; a result \<open>None\<close> is a loop that does not end.  \<open>then_parse\<close> passes an
  exception on.
\<close>

definition then_parse :: "'a parsed \<Rightarrow> ('a \<Rightarrow> parser \<Rightarrow> 'b parsed option) \<Rightarrow> 'b parsed option" where
  "then_parse r k =
     (case r of
        Parsed x P \<Rightarrow> k x P
      | SyntaxError x y \<Rightarrow> Some (SyntaxError x y)
      | NotModelled \<Rightarrow> Some NotModelled)"

partial_function (option) term_loop :: "expr \<Rightarrow> parser \<Rightarrow> expr parsed option" where
  "term_loop left P =
     (if match_types [''TIMES_OP'', ''DIVIDED''] P then
        (if match_types [''TIMES_OP''] P then
           (case parse_factor (advance_token P) of
              Parsed right P1 \<Rightarrow> term_loop (BinaryOp left ''times'' right) P1
            | SyntaxError x y \<Rightarrow> Some (SyntaxError x y)
            | NotModelled \<Rightarrow> Some NotModelled)
         else if match_types [''DIVIDED''] P then
           (case expect ''BY'' (advance_token P) of
              Parsed t P1 \<Rightarrow>
                (case parse_factor P1 of
                   Parsed right P2 \<Rightarrow> term_loop (BinaryOp left ''divided_by'' right) P2
                 | SyntaxError x y \<Rightarrow> Some (SyntaxError x y)
                 | NotModelled \<Rightarrow> Some NotModelled)
            | SyntaxError x y \<Rightarrow> Some (SyntaxError x y)
            | NotModelled \<Rightarrow> Some NotModelled)
         else term_loop left P)
      else Some (Parsed left P))"

declare term_loop.simps [code]

definition parse_term :: "parser \<Rightarrow> expr parsed option" where
  "parse_term P = then_parse (parse_factor P) term_loop"

partial_function (option) arithmetic_loop :: "expr \<Rightarrow> parser \<Rightarrow> expr parsed option" where
  "arithmetic_loop left P =
     (if match_types [''PLUS'', ''MINUS''] P then
        (let op = (if map_option ttype (current_token P) = Some ''PLUS'' then ''plus'' else ''minus'')
         in Option.bind (parse_term (advance_token P))
              (\<lambda>r. case r of
                     Parsed right P1 \<Rightarrow> arithmetic_loop (BinaryOp left op right) P1
                   | SyntaxError x y \<Rightarrow> Some (SyntaxError x y)
                   | NotModelled \<Rightarrow> Some NotModelled))
      else Some (Parsed left P))"

declare arithmetic_loop.simps [code]

definition parse_arithmetic :: "parser \<Rightarrow> expr parsed option" where
  "parse_arithmetic P = Option.bind (parse_term P) (\<lambda>r. then_parse r arithmetic_loop)"

text \<open>The right operand of a comparison.\<close>

definition comparison_with :: "expr \<Rightarrow> string \<Rightarrow> parser \<Rightarrow> expr parsed option" where
  "comparison_with left op P =
     Option.bind (parse_arithmetic (advance_token P))
       (\<lambda>r. then_parse r (\<lambda>right P1. Some (Parsed (BinaryOp left op right) P1)))"

definition parse_comparison :: "parser \<Rightarrow> expr parsed option" where
  "parse_comparison P =
     Option.bind (parse_arithmetic P) (\<lambda>r. then_parse r (\<lambda>left P1.
       if match_types [''EQUALS''] P1 then comparison_with left ''equals'' P1
       else if match_types [''DOES_NOT_EQUAL''] P1 then comparison_with left ''does_not_equal'' P1
       else if match_types [''IS_GREATER_THAN''] P1 then comparison_with left ''is_greater_than'' P1
       else if match_types [''IS_LESS_THAN''] P1 then comparison_with left ''is_less_than'' P1
       else if match_types [''IS_AT_LEAST''] P1 then comparison_with left ''is_at_least'' P1
       else if match_types [''IS_AT_MOST''] P1 then comparison_with left ''is_at_most'' P1
       else Some (Parsed left P1)))"

definition parse_not :: "parser \<Rightarrow> expr parsed option" where
  "parse_not P =
     (if match_types [''NOT''] P then
        Option.bind (parse_comparison (advance_token P))
          (\<lambda>r. then_parse r (\<lambda>e P1. Some (Parsed (UnaryOp ''not'' e) P1)))
      else parse_comparison P)"

partial_function (option) and_loop :: "expr \<Rightarrow> parser \<Rightarrow> expr parsed option" where
  "and_loop left P =
     (if match_types [''AND''] P then
        Option.bind (parse_not (advance_token P))
          (\<lambda>r. case r of
                 Parsed right P1 \<Rightarrow> and_loop (BinaryOp left ''and'' right) P1
               | SyntaxError x y \<Rightarrow> Some (SyntaxError x y)
               | NotModelled \<Rightarrow> Some NotModelled)
      else Some (Parsed left P))"

declare and_loop.simps [code]

definition parse_and :: "parser \<Rightarrow> expr parsed option" where
  "parse_and P = Option.bind (parse_not P) (\<lambda>r. then_parse r and_loop)"

partial_function (option) or_loop :: "expr \<Rightarrow> parser \<Rightarrow> expr parsed option" where
  "or_loop left P =
     (if match_types [''OR''] P then
        Option.bind (parse_and (advance_token P))
          (\<lambda>r. case r of
                 Parsed right P1 \<Rightarrow> or_loop (BinaryOp left ''or'' right) P1
               | SyntaxError x y \<Rightarrow> Some (SyntaxError x y)
               | NotModelled \<Rightarrow> Some NotModelled)
      else Some (Parsed left P))"

declare or_loop.simps [code]

definition parse_or :: "parser \<Rightarrow> expr parsed option" where
  "parse_or P = Option.bind (parse_and P) (\<lambda>r. then_parse r or_loop)"

definition parse_expression :: "parser \<Rightarrow> expr parsed option" where
  "parse_expression P = parse_or P"

text \<open>The loop of \<open>parse_say\<close>, with the parts read so far.\<close>

partial_function (option) say_loop :: "expr list \<Rightarrow> parser \<Rightarrow> expr list parsed option" where
  "say_loop parts P =
     (if match_types [''AND''] P then
        Option.bind (parse_expression (advance_token P))
          (\<lambda>r. case r of
                 Parsed e P1 \<Rightarrow> say_loop (parts @ [e]) P1
               | SyntaxError x y \<Rightarrow> Some (SyntaxError x y)
               | NotModelled \<Rightarrow> Some NotModelled)
      else Some (Parsed parts P))"

declare say_loop.simps [code]

definition parse_say :: "parser \<Rightarrow> stmt parsed option" where
  "parse_say P =
     then_parse (expect ''SAY'' P) (\<lambda>t P1.
       Option.bind (parse_expression P1) (\<lambda>r. then_parse r (\<lambda>e P2.
         Option.bind (say_loop [e] P2) (\<lambda>r. then_parse r (\<lambda>parts P3.
           Some (Parsed (SayStatement parts) P3))))))"

definition parse_print :: "parser \<Rightarrow> stmt parsed option" where
  "parse_print P =
     then_parse (expect ''PRINT'' P) (\<lambda>t P1.
       Option.bind (parse_expression P1) (\<lambda>r. then_parse r (\<lambda>e P2.
         Some (Parsed (PrintStatement e) P2))))"

text \<open>The first loop of \<open>parse_assignment_or_mutation\<close>, over the target.\<close>

function target_loop :: "expr \<Rightarrow> parser \<Rightarrow> expr parsed" where
  "target_loop target P =
     (if match_types [''DOT''] P then
        (case expect ''IDENTIFIER'' (advance_token P) of
           Parsed t P1 \<Rightarrow>
             (case string_value t of
                Some prop \<Rightarrow> target_loop (PropertyAccess target prop) P1
              | None \<Rightarrow> NotModelled)
         | SyntaxError x y \<Rightarrow> SyntaxError x y
         | NotModelled \<Rightarrow> NotModelled)
      else if match_types [''LBRACKET''] P then NotModelled
      else Parsed target P)"
  by pat_completeness auto
termination
  by (relation "measure (\<lambda>(e, P). length (tokens P) - ppos P)")
     (auto simp: match_types_def current_token_def advance_token_def expect_def
           split: if_splits option.splits)

declare target_loop.simps [simp del]

text \<open>Its last loop, over the arguments of a call in statement position.\<close>

partial_function (option) call_args_loop :: "expr list \<Rightarrow> parser \<Rightarrow> expr list parsed option" where
  "call_args_loop args P =
     (if \<not> match_types [''NEWLINE'', ''EOF'', ''END''] P then
        (if match_types [''NUMBER'', ''STRING'', ''IDENTIFIER'', ''TRUE'', ''FALSE'', ''NOTHING'',
                         ''PI'', ''LBRACKET'', ''NOT''] P then
           Option.bind (parse_expression P)
             (\<lambda>r. case r of
                    Parsed e P1 \<Rightarrow> call_args_loop (args @ [e]) P1
                  | SyntaxError x y \<Rightarrow> Some (SyntaxError x y)
                  | NotModelled \<Rightarrow> Some NotModelled)
         else Some (Parsed args P))
      else Some (Parsed args P))"

declare call_args_loop.simps [code]

definition mutation_by :: "expr \<Rightarrow> string \<Rightarrow> parser \<Rightarrow> stmt parsed option" where
  "mutation_by target op P =
     then_parse (expect ''BY'' (advance_token P)) (\<lambda>t P1.
       Option.bind (parse_expression P1) (\<lambda>r. then_parse r (\<lambda>v P2.
         Some (Parsed (Mutation target op v) P2))))"

definition parse_assignment_or_mutation :: "parser \<Rightarrow> stmt parsed option" where
  "parse_assignment_or_mutation P =
     then_parse (expect ''IDENTIFIER'' P) (\<lambda>t P1.
       case string_value t of
         None \<Rightarrow> Some NotModelled
       | Some name \<Rightarrow>
           then_parse (target_loop (Identifier name) P1) (\<lambda>target P2.
             if match_types [''IS''] P2 then
               (let P3 = advance_token P2 in
                if match_types [''ADD''] P3 then Some NotModelled
                else if match_types [''DICTIONARY''] P3 then Some NotModelled
                else if match_types [''OBJECT''] P3 then Some NotModelled
                else Option.bind (parse_expression P3) (\<lambda>r. then_parse r (\<lambda>v P4.
                       Some (Parsed (Assignment target v) P4))))
             else if match_types [''BECOMES''] P2 then
               Option.bind (parse_expression (advance_token P2)) (\<lambda>r. then_parse r (\<lambda>v P3.
                 Some (Parsed (Mutation target ''becomes'' v) P3)))
             else if match_types [''INCREASE''] P2 then mutation_by target ''increase'' P2
             else if match_types [''DECREASE''] P2 then mutation_by target ''decrease'' P2
             else Option.bind (call_args_loop [] P2) (\<lambda>r. then_parse r (\<lambda>args P3.
                    Some (Parsed (FunctionCallStatement name args) P3)))))"

text \<open>\<open>parse_statement\<close> returns a statement, or \<open>None\<close> on a token that starts no
  statement; then the parser is where it was after \<open>skip_newlines\<close>.\<close>

definition parse_statement :: "parser \<Rightarrow> stmt option parsed option" where
  "parse_statement P0 =
     (let P = skip_newlines P0;
          some = (\<lambda>r. map_option (\<lambda>r. case r of
                     Parsed s P1 \<Rightarrow> Parsed (Some s) P1
                   | SyntaxError x y \<Rightarrow> SyntaxError x y
                   | NotModelled \<Rightarrow> NotModelled) r)
      in
      if match_types [''SAY''] P then some (parse_say P)
      else if match_types [''PRINT''] P then some (parse_print P)
      else if match_types [''CLEAR''] P then Some NotModelled
      else if match_types [''SHOW''] P then Some NotModelled
      else if match_types [''ASK''] P then Some NotModelled
      else if match_types [''IF''] P then Some NotModelled
      else if match_types [''REPEAT''] P then Some NotModelled
      else if match_types [''DO''] P then Some NotModelled
      else if match_types [''BREAK''] P then Some (Parsed (Some BreakStatement) (advance_token P))
      else if match_types [''CONTINUE''] P then Some (Parsed (Some ContinueStatement) (advance_token P))
      else if match_types [''STOP''] P then Some (Parsed (Some StopStatement) (advance_token P))
      else if match_types [''DEFINE''] P then Some NotModelled
      else if match_types [''RETURN''] P then Some NotModelled
      else if match_types [''MATCH''] P then Some NotModelled
      else if match_types [''ADD''] P then Some NotModelled
      else if match_types [''REMOVE''] P then Some NotModelled
      else if match_types [''SORT''] P then Some NotModelled
      else if match_types [''REVERSE''] P then Some NotModelled
      else if match_types [''SHUFFLE''] P then Some NotModelled
      else if match_types [''WRITE''] P then Some NotModelled
      else if match_types [''DRAW''] P then Some NotModelled
      else if match_types [''WHEN''] P then Some NotModelled
      else if match_types [''WAIT''] P then Some NotModelled
      else if match_types [''AFTER''] P then Some NotModelled
      else if match_types [''EVERY''] P then Some NotModelled
      else if match_types [''USE''] P then Some NotModelled
      else if match_types [''INSTALL''] P then Some NotModelled
      else if match_types [''SERVER''] P then Some NotModelled
      else if match_types [''JOB''] P then Some NotModelled
      else if match_types [''CRON''] P then Some NotModelled
      else if match_types [''IDENTIFIER''] P then some (parse_assignment_or_mutation P)
      else Some (Parsed None P))"

text \<open>The loop of \<open>parse\<close>, with the statements read so far.\<close>

partial_function (option) parse_loop :: "stmt list \<Rightarrow> parser \<Rightarrow> stmt list parsed option" where
  "parse_loop statements P =
     (if \<not> match_types [''EOF''] P then
        Option.bind (parse_statement P)
          (\<lambda>r. case r of
                 Parsed st P1 \<Rightarrow>
                   parse_loop (case st of Some s \<Rightarrow> statements @ [s] | None \<Rightarrow> statements)
                     (skip_newlines P1)
               | SyntaxError x y \<Rightarrow> Some (SyntaxError x y)
               | NotModelled \<Rightarrow> Some NotModelled)
      else Some (Parsed statements P))"

declare parse_loop.simps [code]

text \<open>What \<open>parse\<close> gives: the \<open>Program\<close> of the statements, or the exception.\<close>

datatype parse_result =
    Program "stmt list"
  | ParseSyntaxError "TokenType option" "token option"
  | ParseNotModelled
  | LexError lex_error

definition parse :: "token list \<Rightarrow> parse_result option" where
  "parse ts =
     map_option
       (\<lambda>r. case r of
              Parsed statements P \<Rightarrow> Program statements
            | SyntaxError x y \<Rightarrow> ParseSyntaxError x y
            | NotModelled \<Rightarrow> ParseNotModelled)
       (parse_loop [] (skip_newlines (Parser_init ts)))"

text \<open>
  The front end as \<open>run_file\<close> of gopa.py calls it:
  \<open>tokens = Lexer(source).tokenize(); ast = Parser(tokens).parse()\<close>.  \<open>None\<close> is a call that
  does not return.
\<close>

definition front_end :: "string \<Rightarrow> parse_result option" where
  "front_end src =
     (case tokenize src of
        None \<Rightarrow> None
      | Some (Inl e) \<Rightarrow> Some (LexError e)
      | Some (Inr ts) \<Rightarrow> parse ts)"

section \<open>Runtime scopes (runtime.py)\<close>

text \<open>
  A \<open>Runtime\<close> object has its variables, its functions and a parent.  Only the current
  scope is ever written to, and a scope is dropped when the call that made it ends, so the
  chain of scopes is a list of frames, the current one first.  A function in the table is
  the \<open>FunctionDef\<close> object that \<open>execute_function_def\<close> builds: parameters, body and
  \<open>closure_env\<close>.  (The built-in functions are put into the table of the global scope as
  well, but a call looks a built-in name up in \<open>BUILTINS\<close> itself and never in the table.)
  A Python \<open>dict\<close> is an association list in insertion order.
\<close>

datatype func = FunctionObject (fn_params: "string list") (fn_body: "stmt list")
  (fn_closure_env: "(string \<times> value) list")

record frame =
  variables :: "(string \<times> value) list"
  function_table :: "(string \<times> func) list"

type_synonym Runtime = "frame list"

definition Runtime_init :: Runtime where
  "Runtime_init = [\<lparr>variables = [], function_table = []\<rparr>]"

fun Runtime_get :: "Runtime \<Rightarrow> string \<Rightarrow> exn + value" where
  "Runtime_get [] name = Inl (NameError (''Variable '' @ [CHR 0x27] @ name @ [CHR 0x27] @ '' not defined''))"
| "Runtime_get (f # parent) name =
     (case map_of (variables f) name of
        Some v \<Rightarrow> Inr v
      | None \<Rightarrow> Runtime_get parent name)"

definition Runtime_set :: "string \<Rightarrow> value \<Rightarrow> Runtime \<Rightarrow> Runtime" where
  "Runtime_set name v rt =
     (case rt of
        [] \<Rightarrow> []
      | f # parent \<Rightarrow> f\<lparr>variables := dict_set name v (variables f)\<rparr> # parent)"

definition define_function :: "string \<Rightarrow> func \<Rightarrow> Runtime \<Rightarrow> Runtime" where
  "define_function name fn rt =
     (case rt of
        [] \<Rightarrow> []
      | f # parent \<Rightarrow> f\<lparr>function_table := dict_set name fn (function_table f)\<rparr> # parent)"

fun get_function :: "Runtime \<Rightarrow> string \<Rightarrow> exn + func" where
  "get_function [] name = Inl (NameError (''Function '' @ [CHR 0x27] @ name @ [CHR 0x27] @ '' not defined''))"
| "get_function (f # parent) name =
     (case map_of (function_table f) name of
        Some fn \<Rightarrow> Inr fn
      | None \<Rightarrow> get_function parent name)"

text \<open>\<open>child_scope\<close>: a new scope whose parent is the scope it is called on, with a copy of
  that scope's function table.\<close>

definition child_scope :: "Runtime \<Rightarrow> Runtime" where
  "child_scope rt =
     \<lparr>variables = [], function_table = (case rt of [] \<Rightarrow> [] | f # _ \<Rightarrow> function_table f)\<rparr> # rt"

text \<open>\<open>self.runtime.variables.get(name)\<close> and \<open>self.runtime.variables.pop(name, None)\<close>, on the
  current scope only.\<close>

definition variables_get :: "Runtime \<Rightarrow> string \<Rightarrow> value option" where
  "variables_get rt name = (case rt of [] \<Rightarrow> None | f # _ \<Rightarrow> map_of (variables f) name)"

definition variables_pop :: "string \<Rightarrow> Runtime \<Rightarrow> Runtime" where
  "variables_pop name rt =
     (case rt of
        [] \<Rightarrow> []
      | f # parent \<Rightarrow> f\<lparr>variables := filter (\<lambda>(k, v). k \<noteq> name) (variables f)\<rparr> # parent)"

section \<open>Evaluator (interpreter.py)\<close>

text \<open>
  The store holds the lists and dictionaries; a reference is an index into it.  The
  interpreter's state is its current scope chain, the store, the text written to the
  output stream and the debug flag.  An evaluation returns a value, raises an exception,
  runs out of the fuel that bounds recursion and loops (\<open>Timeout\<close>), or reaches something
  the model leaves out (\<open>Unsupported\<close>).
\<close>

datatype obj = OList "value list" | ODict "(value \<times> value) list"

record interp =
  runtime :: Runtime
  heap :: "obj list"
  output_stream :: string
  debug :: bool

datatype 'a outcome = Val 'a | Raise exn | Unsupported | Timeout

type_synonym 'a action = "interp \<Rightarrow> 'a outcome \<times> interp"

definition Interpreter_init :: "bool \<Rightarrow> interp" where
  "Interpreter_init dbg = \<lparr>runtime = Runtime_init, heap = [], output_stream = [], debug = dbg\<rparr>"

text \<open>Sequencing: the rest runs on a value; anything else ends the evaluation.\<close>

definition and_then :: "'a outcome \<times> interp \<Rightarrow> ('a \<Rightarrow> 'b action) \<Rightarrow> 'b outcome \<times> interp" where
  "and_then r f =
     (case r of
        (Val a, s) \<Rightarrow> f a s
      | (Raise e, s) \<Rightarrow> (Raise e, s)
      | (Unsupported, s) \<Rightarrow> (Unsupported, s)
      | (Timeout, s) \<Rightarrow> (Timeout, s))"

text \<open>\<open>print(text, file=self.output_stream)\<close>\<close>

definition print_line :: "string \<Rightarrow> interp \<Rightarrow> interp" where
  "print_line s st = st\<lparr>output_stream := output_stream st @ s @ [CHR 0x0A]\<rparr>"

definition alloc :: "obj \<Rightarrow> interp \<Rightarrow> nat \<times> interp" where
  "alloc ob st = (length (heap st), st\<lparr>heap := heap st @ [ob]\<rparr>)"

definition list_at :: "interp \<Rightarrow> nat \<Rightarrow> value list" where
  "list_at st r = (if r < length (heap st) then (case heap st ! r of OList xs \<Rightarrow> xs | _ \<Rightarrow> []) else [])"

definition dict_at :: "interp \<Rightarrow> nat \<Rightarrow> (value \<times> value) list" where
  "dict_at st r = (if r < length (heap st) then (case heap st ! r of ODict kvs \<Rightarrow> kvs | _ \<Rightarrow> []) else [])"

subsection \<open>Python operations on values\<close>

text \<open>Truth value of an object.\<close>

definition truthy :: "interp \<Rightarrow> value \<Rightarrow> bool" where
  "truthy st v =
     (case v of
        VNone \<Rightarrow> False
      | VBool b \<Rightarrow> b
      | VInt i \<Rightarrow> i \<noteq> 0
      | VStr s \<Rightarrow> s \<noteq> []
      | VList r \<Rightarrow> list_at st r \<noteq> []
      | VDict r \<Rightarrow> dict_at st r \<noteq> [])"

text \<open>\<open>isinstance(v, int)\<close> holds of integers and of booleans, which count as 0 and 1.\<close>

definition as_int :: "value \<Rightarrow> int option" where
  "as_int v = (case v of VInt i \<Rightarrow> Some i | VBool b \<Rightarrow> Some (if b then 1 else 0) | _ \<Rightarrow> None)"

text \<open>\<open>str(v)\<close>; the text of a list or dictionary is left out.\<close>

definition py_str :: "value \<Rightarrow> string option" where
  "py_str v =
     (case v of
        VNone \<Rightarrow> Some ''None''
      | VBool b \<Rightarrow> Some (if b then ''True'' else ''False'')
      | VInt i \<Rightarrow> Some (py_str_int i)
      | VStr s \<Rightarrow> Some s
      | _ \<Rightarrow> None)"

text \<open>The text of \<open>type(v)\<close> in a message.\<close>

definition py_type :: "value \<Rightarrow> string" where
  "py_type v =
     ''<class '' @ [CHR 0x27] @
       (case v of
          VNone \<Rightarrow> ''NoneType'' | VBool _ \<Rightarrow> ''bool'' | VInt _ \<Rightarrow> ''int'' | VStr _ \<Rightarrow> ''str''
        | VList _ \<Rightarrow> ''list'' | VDict _ \<Rightarrow> ''dict'')
       @ [CHR 0x27] @ ''>''"

text \<open>\<open>a == b\<close>: \<open>None\<close> where two different lists or two different dictionaries would be
  compared item by item, which is left out.\<close>

definition py_eq :: "value \<Rightarrow> value \<Rightarrow> bool option" where
  "py_eq a b =
     (case (as_int a, as_int b) of
        (Some i, Some j) \<Rightarrow> Some (i = j)
      | _ \<Rightarrow>
        (case (a, b) of
           (VList r, VList r') \<Rightarrow> if r = r' then Some True else None
         | (VDict r, VDict r') \<Rightarrow> if r = r' then Some True else None
         | _ \<Rightarrow> Some (a = b)))"

text \<open>Order of strings: by code points, a proper prefix first.\<close>

fun str_less :: "string \<Rightarrow> string \<Rightarrow> bool" where
  "str_less [] [] = False"
| "str_less [] (d # ds) = True"
| "str_less (c # cs) [] = False"
| "str_less (c # cs) (d # ds) =
     ((of_char c :: nat) < of_char d \<or> (c = d \<and> str_less cs ds))"

definition py_compare :: "string \<Rightarrow> value \<Rightarrow> value \<Rightarrow> value outcome" where
  "py_compare op a b =
     (case (as_int a, as_int b) of
        (Some i, Some j) \<Rightarrow>
          Val (VBool (if op = ''is_greater_than'' then i > j
                      else if op = ''is_less_than'' then i < j
                      else if op = ''is_at_least'' then i \<ge> j
                      else i \<le> j))
      | _ \<Rightarrow>
        (case (a, b) of
           (VStr s, VStr t) \<Rightarrow>
             Val (VBool (if op = ''is_greater_than'' then str_less t s
                         else if op = ''is_less_than'' then str_less s t
                         else if op = ''is_at_least'' then \<not> str_less s t
                         else \<not> str_less t s))
         | (VList _, VList _) \<Rightarrow> Unsupported
         | _ \<Rightarrow> Raise TypeError))"

text \<open>\<open>s * n\<close> for a string.\<close>

definition str_repeat :: "string \<Rightarrow> int \<Rightarrow> string" where
  "str_repeat s n = concat (replicate (nat n) s)"

text \<open>The arithmetic of \<open>evaluate_binary_op\<close> once both operands are values: \<open>+\<close>, \<open>-\<close>, \<open>*\<close>
  and the guarded \<open>/\<close>.  A quotient is a float, and a sum or product of lists a new list;
  both are left out.\<close>

definition py_arith :: "string \<Rightarrow> value \<Rightarrow> value \<Rightarrow> value outcome" where
  "py_arith op a b =
     (if op = ''plus'' then
        (case (as_int a, as_int b) of
           (Some i, Some j) \<Rightarrow> Val (VInt (i + j))
         | _ \<Rightarrow>
           (case (a, b) of
              (VStr s, VStr t) \<Rightarrow> Val (VStr (s @ t))
            | (VList _, VList _) \<Rightarrow> Unsupported
            | _ \<Rightarrow> Raise TypeError))
      else if op = ''minus'' then
        (case (as_int a, as_int b) of
           (Some i, Some j) \<Rightarrow> Val (VInt (i - j))
         | _ \<Rightarrow> Raise TypeError)
      else if op = ''times'' then
        (case (as_int a, as_int b) of
           (Some i, Some j) \<Rightarrow> Val (VInt (i * j))
         | (Some i, None) \<Rightarrow>
             (case b of
                VStr t \<Rightarrow> Val (VStr (str_repeat t i))
              | VList _ \<Rightarrow> Unsupported
              | _ \<Rightarrow> Raise TypeError)
         | (None, Some j) \<Rightarrow>
             (case a of
                VStr s \<Rightarrow> Val (VStr (str_repeat s j))
              | VList _ \<Rightarrow> Unsupported
              | _ \<Rightarrow> Raise TypeError)
         | _ \<Rightarrow> Raise TypeError)
      else
        (if as_int b = Some 0 then Raise (RuntimeError ''Division by zero'')
         else (case (as_int a, as_int b) of
                 (Some i, Some j) \<Rightarrow> Unsupported
               | _ \<Rightarrow> Raise TypeError)))"

text \<open>A dictionary key: \<open>True\<close> and \<open>1\<close> are the same key, a list or a dictionary is
  unhashable.\<close>

definition hashable :: "value \<Rightarrow> bool" where
  "hashable v = (case v of VList _ \<Rightarrow> False | VDict _ \<Rightarrow> False | _ \<Rightarrow> True)"

definition key_of :: "value \<Rightarrow> value" where
  "key_of v = (case v of VBool b \<Rightarrow> VInt (if b then 1 else 0) | _ \<Rightarrow> v)"

definition dict_lookup :: "(value \<times> value) list \<Rightarrow> value \<Rightarrow> value option" where
  "dict_lookup kvs k = map_of (map (\<lambda>(k', v). (key_of k', v)) kvs) (key_of k)"

fun dict_store :: "value \<Rightarrow> value \<Rightarrow> (value \<times> value) list \<Rightarrow> (value \<times> value) list" where
  "dict_store k v [] = [(k, v)]"
| "dict_store k v ((k', v') # kvs) =
     (if key_of k' = key_of k then (k', v) # kvs else (k', v') # dict_store k v kvs)"

definition heap_set :: "nat \<Rightarrow> obj \<Rightarrow> interp \<Rightarrow> interp" where
  "heap_set r ob st = st\<lparr>heap := (heap st)[r := ob]\<rparr>"

subsection \<open>Expressions\<close>

text \<open>
  \<open>evaluate\<close> and \<open>execute\<close> call each other.  Each method below takes the two as parameters
  \<open>ev\<close> and \<open>ex\<close>; \<open>evaluate\<close> and \<open>execute\<close> themselves are defined at the end, by recursion
  on the fuel.
\<close>

type_synonym evaluator = "expr \<Rightarrow> value action"
type_synonym executor = "stmt \<Rightarrow> value action"

text \<open>\<open>[self.evaluate(e) for e in es]\<close>\<close>

fun evaluate_all :: "evaluator \<Rightarrow> expr list \<Rightarrow> value list action" where
  "evaluate_all ev [] s = (Val [], s)"
| "evaluate_all ev (e # es) s =
     and_then (ev e s) (\<lambda>v s1.
     and_then (evaluate_all ev es s1) (\<lambda>vs s2. (Val (v # vs), s2)))"

text \<open>\<open>for stmt in body: self.execute(stmt)\<close>\<close>

fun execute_block :: "executor \<Rightarrow> stmt list \<Rightarrow> value action" where
  "execute_block ex [] s = (Val VNone, s)"
| "execute_block ex (st # rest) s =
     and_then (ex st s) (\<lambda>_ s1. execute_block ex rest s1)"

definition evaluate_binary_op :: "evaluator \<Rightarrow> expr \<Rightarrow> string \<Rightarrow> expr \<Rightarrow> value action" where
  "evaluate_binary_op ev left_expr op right_expr s =
     and_then (ev left_expr s) (\<lambda>left s1.
     and_then (ev right_expr s1) (\<lambda>right s2.
       if op \<in> {''plus'', ''minus'', ''times'', ''divided_by''} then (py_arith op left right, s2)
       else if op = ''equals'' then
         (case py_eq left right of Some b \<Rightarrow> (Val (VBool b), s2) | None \<Rightarrow> (Unsupported, s2))
       else if op = ''does_not_equal'' then
         (case py_eq left right of Some b \<Rightarrow> (Val (VBool (\<not> b)), s2) | None \<Rightarrow> (Unsupported, s2))
       else if op \<in> {''is_greater_than'', ''is_less_than'', ''is_at_least'', ''is_at_most''} then
         (py_compare op left right, s2)
       else if op = ''and'' then (Val (if truthy s2 left then right else left), s2)
       else if op = ''or'' then (Val (if truthy s2 left then left else right), s2)
       else (Raise (RuntimeError (''Unknown binary operator: '' @ op)), s2)))"

definition evaluate_unary_op :: "evaluator \<Rightarrow> string \<Rightarrow> expr \<Rightarrow> value action" where
  "evaluate_unary_op ev op operand_expr s =
     and_then (ev operand_expr s) (\<lambda>operand s1.
       if op = ''not'' then (Val (VBool (\<not> truthy s1 operand)), s1)
       else (Raise (RuntimeError (''Unknown unary operator: '' @ op)), s1))"

text \<open>The names of \<open>BUILTINS\<close>.  Of the built-in functions themselves only \<open>len\<close> and
  \<open>type_of\<close> are modelled.\<close>

definition BUILTINS :: "string list" where
  "BUILTINS =
     [''random'', ''random_int'', ''floor'', ''ceil'', ''round'', ''abs'', ''sqrt'', ''sin'',
      ''cos'', ''tan'', ''pow'', ''log'', ''max'', ''min'', ''sum'', ''len'', ''range'',
      ''type_of'', ''to_string'', ''to_number'', ''print_table'']"

definition call_builtin :: "string \<Rightarrow> value list \<Rightarrow> value action" where
  "call_builtin name args s =
     (if name = ''len'' then
        (case args of
           [VStr t] \<Rightarrow> (Val (VInt (int (length t))), s)
         | [VList r] \<Rightarrow> (Val (VInt (int (length (list_at s r)))), s)
         | [VDict r] \<Rightarrow> (Val (VInt (int (length (dict_at s r)))), s)
         | _ \<Rightarrow> (Raise TypeError, s))
      else if name = ''type_of'' then
        (case args of
           [v] \<Rightarrow>
             (Val (VStr (case v of
                           VNone \<Rightarrow> ''nothing'' | VBool _ \<Rightarrow> ''boolean'' | VInt _ \<Rightarrow> ''number''
                         | VStr _ \<Rightarrow> ''string'' | VList _ \<Rightarrow> ''list'' | VDict _ \<Rightarrow> ''dictionary'')), s)
         | _ \<Rightarrow> (Raise TypeError, s))
      else (Unsupported, s))"

text \<open>The loop that binds the parameters: the argument at the same place, or \<open>None\<close>.\<close>

fun bind_params :: "nat \<Rightarrow> string list \<Rightarrow> value list \<Rightarrow> Runtime \<Rightarrow> Runtime" where
  "bind_params i [] args rt = rt"
| "bind_params i (param # rest) args rt =
     bind_params (Suc i) rest args
       (Runtime_set param (if i < length args then args ! i else VNone) rt)"

text \<open>The body of the outer \<open>try\<close> of \<open>evaluate_function_call\<close>, and its handler
  \<open>except NameError\<close>.\<close>

definition call_user_function :: "evaluator \<Rightarrow> executor \<Rightarrow> string \<Rightarrow> expr list \<Rightarrow> value action" where
  "call_user_function ev ex name arg_exprs s =
     (case get_function (runtime s) name of
        Inl e \<Rightarrow> (Raise e, s)
      | Inr fn \<Rightarrow>
          and_then (evaluate_all ev arg_exprs s) (\<lambda>args s1.
            (let func_runtime = child_scope (runtime s1);
                 old_runtime = runtime s1;
                 s2 = s1\<lparr>runtime := bind_params 0 (fn_params fn) args func_runtime\<rparr>
             in case execute_block ex (fn_body fn) s2 of
                  (Val _, s3) \<Rightarrow> (Val VNone, s3\<lparr>runtime := old_runtime\<rparr>)
                | (Raise (ReturnSignal v), s3) \<Rightarrow> (Val v, s3\<lparr>runtime := old_runtime\<rparr>)
                | (r, s3) \<Rightarrow> (r, s3\<lparr>runtime := old_runtime\<rparr>))))"

definition evaluate_function_call :: "evaluator \<Rightarrow> executor \<Rightarrow> string \<Rightarrow> expr list \<Rightarrow> value action" where
  "evaluate_function_call ev ex name arg_exprs s =
     (if name \<in> set BUILTINS then
        and_then (evaluate_all ev arg_exprs s) (\<lambda>args s1. call_builtin name args s1)
      else
        (case call_user_function ev ex name arg_exprs s of
           (Raise (NameError _), s') \<Rightarrow>
             (Raise (RuntimeError (''Function '' @ [CHR 0x27] @ name @ [CHR 0x27] @ '' not defined'')), s')
         | r \<Rightarrow> r))"

text \<open>\<open>value in container\<close> for a list of values.\<close>

fun py_in :: "value \<Rightarrow> value list \<Rightarrow> bool option" where
  "py_in v [] = Some False"
| "py_in v (x # xs) =
     (case py_eq x v of
        None \<Rightarrow> None
      | Some True \<Rightarrow> Some True
      | Some False \<Rightarrow> py_in v xs)"

text \<open>\<open>needle in text\<close> for strings.\<close>

fun is_substring :: "string \<Rightarrow> string \<Rightarrow> bool" where
  "is_substring needle [] = (needle = [])"
| "is_substring needle (c # cs) = (starts_with needle (c # cs) \<or> is_substring needle cs)"

definition evaluate_find :: "evaluator \<Rightarrow> expr \<Rightarrow> expr \<Rightarrow> value action" where
  "evaluate_find ev value_expr in_expr s =
     and_then (ev value_expr s) (\<lambda>v s1.
     and_then (ev in_expr s1) (\<lambda>container s2.
       case container of
         VList r \<Rightarrow>
           (case py_in v (list_at s2 r) of
              Some b \<Rightarrow> (Val (VBool b), s2) | None \<Rightarrow> (Unsupported, s2))
       | VStr t \<Rightarrow>
           (case py_str v of
              Some needle \<Rightarrow> (Val (VBool (is_substring needle t)), s2) | None \<Rightarrow> (Unsupported, s2))
       | VDict r \<Rightarrow>
           (case py_in v (map snd (dict_at s2 r)) of
              None \<Rightarrow> (Unsupported, s2)
            | Some True \<Rightarrow> (Val (VBool True), s2)
            | Some False \<Rightarrow>
                if hashable v then (Val (VBool (dict_lookup (dict_at s2 r) v \<noteq> None)), s2)
                else (Raise TypeError, s2))
       | _ \<Rightarrow> (Val (VBool False), s2)))"

text \<open>
  The loops of \<open>evaluate_filter\<close> and \<open>evaluate_map\<close>.  \<open>for item in list_expr\<close> walks the
  list object itself, which the condition may lengthen, so the loop takes fuel; \<open>i\<close> is the
  place of the iterator, \<open>src\<close> the list walked and \<open>res\<close> the list \<open>result\<close>.  An exception
  of the condition leaves the loop before \<open>item\<close> is put back.
\<close>

definition restore_item :: "value option \<Rightarrow> interp \<Rightarrow> interp" where
  "restore_item old_item s =
     (case old_item of
        Some v \<Rightarrow>
          if v \<noteq> VNone then s\<lparr>runtime := Runtime_set ''item'' v (runtime s)\<rparr>
          else s\<lparr>runtime := variables_pop ''item'' (runtime s)\<rparr>
      | None \<Rightarrow> s\<lparr>runtime := variables_pop ''item'' (runtime s)\<rparr>)"

definition list_append :: "nat \<Rightarrow> value \<Rightarrow> interp \<Rightarrow> interp" where
  "list_append r v s = heap_set r (OList (list_at s r @ [v])) s"

fun filter_loop :: "nat \<Rightarrow> evaluator \<Rightarrow> expr \<Rightarrow> nat \<Rightarrow> nat \<Rightarrow> nat \<Rightarrow> value action" where
  "filter_loop 0 ev condition src res i s = (Timeout, s)"
| "filter_loop (Suc fuel) ev condition src res i s =
     (if i < length (list_at s src) then
        (let item = list_at s src ! i;
             old_item = variables_get (runtime s) ''item'';
             s1 = s\<lparr>runtime := Runtime_set ''item'' item (runtime s)\<rparr>
         in and_then (ev condition s1) (\<lambda>c s2.
              (let s3 = restore_item old_item s2;
                   s4 = (if truthy s3 c then list_append res item s3 else s3)
               in filter_loop fuel ev condition src res (Suc i) s4)))
      else (Val (VList res), s))"

definition evaluate_filter :: "nat \<Rightarrow> evaluator \<Rightarrow> expr \<Rightarrow> expr \<Rightarrow> value action" where
  "evaluate_filter fuel ev list_expr condition s =
     and_then (ev list_expr s) (\<lambda>lv s1.
       case lv of
         VList src \<Rightarrow>
           (case alloc (OList []) s1 of
              (res, s2) \<Rightarrow> filter_loop fuel ev condition src res 0 s2)
       | _ \<Rightarrow> (Raise (RuntimeError ''filter expects a list''), s1))"

fun map_loop :: "nat \<Rightarrow> evaluator \<Rightarrow> expr \<Rightarrow> nat \<Rightarrow> nat \<Rightarrow> nat \<Rightarrow> value action" where
  "map_loop 0 ev transform src res i s = (Timeout, s)"
| "map_loop (Suc fuel) ev transform src res i s =
     (if i < length (list_at s src) then
        (let item = list_at s src ! i;
             old_item = variables_get (runtime s) ''item'';
             s1 = s\<lparr>runtime := Runtime_set ''item'' item (runtime s)\<rparr>
         in and_then (ev transform s1) (\<lambda>transformed s2.
              (let s3 = restore_item old_item s2;
                   s4 = list_append res transformed s3
               in map_loop fuel ev transform src res (Suc i) s4)))
      else (Val (VList res), s))"

definition evaluate_map :: "nat \<Rightarrow> evaluator \<Rightarrow> expr \<Rightarrow> expr \<Rightarrow> value action" where
  "evaluate_map fuel ev list_expr transform s =
     and_then (ev list_expr s) (\<lambda>lv s1.
       case lv of
         VList src \<Rightarrow>
           (case alloc (OList []) s1 of
              (res, s2) \<Rightarrow> map_loop fuel ev transform src res 0 s2)
       | _ \<Rightarrow> (Raise (RuntimeError ''map expects a list''), s1))"

text \<open>The text of \<open>type(node)\<close> for a node of the syntax tree.\<close>

definition expr_class :: "expr \<Rightarrow> string" where
  "expr_class e =
     ''<class '' @ [CHR 0x27] @ ''gopa_lang.ast_nodes.'' @
       (case e of
          NumberLiteral _ \<Rightarrow> ''NumberLiteral'' | StringLiteral _ \<Rightarrow> ''StringLiteral''
        | BooleanLiteral _ \<Rightarrow> ''BooleanLiteral'' | NothingLiteral \<Rightarrow> ''NothingLiteral''
        | PiLiteral \<Rightarrow> ''PiLiteral'' | Identifier _ \<Rightarrow> ''Identifier''
        | BinaryOp _ _ _ \<Rightarrow> ''BinaryOp'' | UnaryOp _ _ \<Rightarrow> ''UnaryOp''
        | PropertyAccess _ _ \<Rightarrow> ''PropertyAccess'' | IndexAccess _ _ \<Rightarrow> ''IndexAccess''
        | ListLiteral _ \<Rightarrow> ''ListLiteral'' | DictionaryLiteral _ \<Rightarrow> ''DictionaryLiteral''
        | ObjectLiteral _ \<Rightarrow> ''ObjectLiteral'' | FunctionCall _ _ \<Rightarrow> ''FunctionCall''
        | FindExpression _ _ \<Rightarrow> ''FindExpression'' | FilterExpression _ _ \<Rightarrow> ''FilterExpression''
        | MapExpression _ _ \<Rightarrow> ''MapExpression'')
       @ [CHR 0x27] @ ''>''"

text \<open>The loop of a dictionary or object literal: \<open>result[key] = self.evaluate(value_expr)\<close>.\<close>

fun evaluate_pairs :: "evaluator \<Rightarrow> (string \<times> expr) list \<Rightarrow> (value \<times> value) list
    \<Rightarrow> (value \<times> value) list action" where
  "evaluate_pairs ev [] result s = (Val result, s)"
| "evaluate_pairs ev ((key, value_expr) # rest) result s =
     and_then (ev value_expr s) (\<lambda>v s1. evaluate_pairs ev rest (dict_store (VStr key) v result) s1)"

text \<open>The index access of \<open>evaluate\<close>, once object and index are values.\<close>

definition index_read :: "value \<Rightarrow> value \<Rightarrow> value action" where
  "index_read ob index s =
     (case ob of
        VList r \<Rightarrow>
          (case as_int index of
             Some i \<Rightarrow>
               if 0 \<le> i \<and> i < int (length (list_at s r)) then (Val (list_at s r ! nat i), s)
               else (Val VNone, s)
           | None \<Rightarrow> (Val VNone, s))
      | VDict r \<Rightarrow>
          if hashable index
          then (Val (case dict_lookup (dict_at s r) index of Some v \<Rightarrow> v | None \<Rightarrow> VNone), s)
          else (Raise TypeError, s)
      | _ \<Rightarrow> (Raise (RuntimeError (''Cannot index '' @ py_type ob)), s))"

text \<open>The body of the \<open>try\<close> of \<open>evaluate\<close>: the chain of \<open>isinstance\<close> tests.  The list or
  dictionary of a literal is put into the store once its items are evaluated.\<close>

definition evaluate_node :: "nat \<Rightarrow> evaluator \<Rightarrow> executor \<Rightarrow> expr \<Rightarrow> value action" where
  "evaluate_node fuel ev ex node s =
     (case node of
        NumberLiteral n \<Rightarrow> (case n of IntNum i \<Rightarrow> (Val (VInt i), s) | FloatNum _ \<Rightarrow> (Unsupported, s))
      | StringLiteral t \<Rightarrow> (Val (VStr t), s)
      | BooleanLiteral b \<Rightarrow> (Val (VBool b), s)
      | NothingLiteral \<Rightarrow> (Val VNone, s)
      | PiLiteral \<Rightarrow> (Unsupported, s)
      | Identifier name \<Rightarrow>
          (case Runtime_get (runtime s) name of Inl e \<Rightarrow> (Raise e, s) | Inr v \<Rightarrow> (Val v, s))
      | BinaryOp l op r \<Rightarrow> evaluate_binary_op ev l op r s
      | UnaryOp op e \<Rightarrow> evaluate_unary_op ev op e s
      | PropertyAccess obj_expr prop \<Rightarrow>
          and_then (ev obj_expr s) (\<lambda>ob s1.
            case ob of
              VNone \<Rightarrow>
                (Raise (RuntimeError (''Cannot access property '' @ [CHR 0x27] @ prop @ [CHR 0x27]
                                       @ '' on nothing'')), s1)
            | VDict r \<Rightarrow>
                (Val (case dict_lookup (dict_at s1 r) (VStr prop) of Some v \<Rightarrow> v | None \<Rightarrow> VNone), s1)
            | _ \<Rightarrow> (Unsupported, s1))
      | IndexAccess obj_expr index_expr \<Rightarrow>
          and_then (ev obj_expr s) (\<lambda>ob s1.
          and_then (ev index_expr s1) (\<lambda>index s2. index_read ob index s2))
      | ListLiteral elements \<Rightarrow>
          and_then (evaluate_all ev elements s) (\<lambda>vs s1.
            case alloc (OList vs) s1 of (r, s2) \<Rightarrow> (Val (VList r), s2))
      | DictionaryLiteral pairs \<Rightarrow>
          and_then (evaluate_pairs ev pairs [] s) (\<lambda>kvs s1.
            case alloc (ODict kvs) s1 of (r, s2) \<Rightarrow> (Val (VDict r), s2))
      | ObjectLiteral properties \<Rightarrow>
          and_then (evaluate_pairs ev properties [] s) (\<lambda>kvs s1.
            case alloc (ODict kvs) s1 of (r, s2) \<Rightarrow> (Val (VDict r), s2))
      | FunctionCall name args \<Rightarrow> evaluate_function_call ev ex name args s
      | FindExpression v c \<Rightarrow> evaluate_find ev v c s
      | FilterExpression l c \<Rightarrow> evaluate_filter fuel ev l c s
      | MapExpression l t \<Rightarrow> evaluate_map fuel ev l t s)"

text \<open>The handler of \<open>evaluate\<close>: \<open>except RuntimeError as e\<close>.  Nothing else is caught.\<close>

definition evaluate_handler :: "value outcome \<times> interp \<Rightarrow> value outcome \<times> interp" where
  "evaluate_handler r =
     (case r of
        (Raise (RuntimeError msg), s) \<Rightarrow>
          if debug s then (Raise (RuntimeError msg), s) else (Val VNone, print_line msg s)
      | _ \<Rightarrow> r)"

subsection \<open>Statements\<close>

definition index_error :: "value \<Rightarrow> value action" where
  "index_error index s =
     (case py_str index of
        Some t \<Rightarrow> (Raise (RuntimeError (''Index '' @ t @ '' out of range'')), s)
      | None \<Rightarrow> (Unsupported, s))"

definition set_target :: "evaluator \<Rightarrow> expr \<Rightarrow> value \<Rightarrow> value action" where
  "set_target ev target v s =
     (case target of
        Identifier name \<Rightarrow> (Val VNone, s\<lparr>runtime := Runtime_set name v (runtime s)\<rparr>)
      | PropertyAccess obj_expr prop \<Rightarrow>
          and_then (ev obj_expr s) (\<lambda>ob s1.
            case ob of
              VDict r \<Rightarrow> (Val VNone, heap_set r (ODict (dict_store (VStr prop) v (dict_at s1 r))) s1)
            | _ \<Rightarrow> (Unsupported, s1))
      | IndexAccess obj_expr index_expr \<Rightarrow>
          and_then (ev obj_expr s) (\<lambda>ob s1.
          and_then (ev index_expr s1) (\<lambda>index s2.
            case ob of
              VList r \<Rightarrow>
                (case as_int index of
                   Some i \<Rightarrow>
                     if 0 \<le> i \<and> i < int (length (list_at s2 r))
                     then (Val VNone, heap_set r (OList ((list_at s2 r)[nat i := v])) s2)
                     else index_error index s2
                 | None \<Rightarrow> index_error index s2)
            | VDict r \<Rightarrow>
                if hashable index
                then (Val VNone, heap_set r (ODict (dict_store index v (dict_at s2 r))) s2)
                else (Raise TypeError, s2)
            | _ \<Rightarrow> (Raise (RuntimeError (''Cannot index '' @ py_type ob)), s2)))
      | _ \<Rightarrow> (Raise (RuntimeError (''Cannot assign to target: '' @ expr_class target)), s))"

definition get_target :: "evaluator \<Rightarrow> expr \<Rightarrow> value action" where
  "get_target ev target s =
     (case target of
        Identifier name \<Rightarrow>
          (case Runtime_get (runtime s) name of Inl e \<Rightarrow> (Raise e, s) | Inr v \<Rightarrow> (Val v, s))
      | PropertyAccess obj_expr prop \<Rightarrow>
          and_then (ev obj_expr s) (\<lambda>ob s1.
            case ob of
              VDict r \<Rightarrow>
                (Val (case dict_lookup (dict_at s1 r) (VStr prop) of Some v \<Rightarrow> v | None \<Rightarrow> VNone), s1)
            | _ \<Rightarrow> (Unsupported, s1))
      | IndexAccess obj_expr index_expr \<Rightarrow>
          and_then (ev obj_expr s) (\<lambda>ob s1.
          and_then (ev index_expr s1) (\<lambda>index s2.
            case ob of
              VList r \<Rightarrow>
                (case as_int index of
                   Some i \<Rightarrow>
                     if 0 \<le> i \<and> i < int (length (list_at s2 r)) then (Val (list_at s2 r ! nat i), s2)
                     else (Val VNone, s2)
                 | None \<Rightarrow> (Val VNone, s2))
            | VDict r \<Rightarrow>
                if hashable index
                then (Val (case dict_lookup (dict_at s2 r) index of Some v \<Rightarrow> v | None \<Rightarrow> VNone), s2)
                else (Raise TypeError, s2)
            | _ \<Rightarrow> (Val VNone, s2)))
      | _ \<Rightarrow> (Raise (RuntimeError (''Cannot get from target: '' @ expr_class target)), s))"

definition execute_assignment :: "evaluator \<Rightarrow> expr \<Rightarrow> expr \<Rightarrow> value action" where
  "execute_assignment ev target value_expr s =
     and_then (ev value_expr s) (\<lambda>v s1. set_target ev target v s1)"

definition execute_mutation :: "evaluator \<Rightarrow> expr \<Rightarrow> string \<Rightarrow> expr \<Rightarrow> value action" where
  "execute_mutation ev target op value_expr s =
     (if op = ''becomes'' then
        and_then (ev value_expr s) (\<lambda>v s1. set_target ev target v s1)
      else if op = ''increase'' then
        and_then (ev value_expr s) (\<lambda>increment s1.
        and_then (get_target ev target s1) (\<lambda>current s2.
        and_then (py_arith ''plus'' current increment, s2) (\<lambda>v s3. set_target ev target v s3)))
      else if op = ''decrease'' then
        and_then (ev value_expr s) (\<lambda>decrement s1.
        and_then (get_target ev target s1) (\<lambda>current s2.
        and_then (py_arith ''minus'' current decrement, s2) (\<lambda>v s3. set_target ev target v s3)))
      else (Val VNone, s))"

text \<open>\<open>[str(self.evaluate(part)) for part in node.parts]\<close>\<close>

fun say_parts :: "evaluator \<Rightarrow> expr list \<Rightarrow> string list action" where
  "say_parts ev [] s = (Val [], s)"
| "say_parts ev (part # rest) s =
     and_then (ev part s) (\<lambda>v s1.
       case py_str v of
         None \<Rightarrow> (Unsupported, s1)
       | Some t \<Rightarrow> and_then (say_parts ev rest s1) (\<lambda>ts s2. (Val (t # ts), s2)))"

definition execute_say :: "evaluator \<Rightarrow> expr list \<Rightarrow> value action" where
  "execute_say ev parts s =
     and_then (say_parts ev parts s) (\<lambda>ts s1. (Val VNone, print_line (concat ts) s1))"

definition execute_print :: "evaluator \<Rightarrow> expr \<Rightarrow> value action" where
  "execute_print ev e s =
     and_then (ev e s) (\<lambda>v s1.
       case py_str v of
         None \<Rightarrow> (Unsupported, s1)
       | Some t \<Rightarrow> (Val VNone, print_line t s1))"

definition execute_if :: "evaluator \<Rightarrow> executor \<Rightarrow> expr \<Rightarrow> stmt list \<Rightarrow> stmt list option \<Rightarrow> value action" where
  "execute_if ev ex condition then_block else_block s =
     and_then (ev condition s) (\<lambda>c s1.
       if truthy s1 c then and_then (execute_block ex then_block s1) (\<lambda>_ s2. (Val VNone, s2))
       else (case else_block of
               Some (st # rest) \<Rightarrow> and_then (execute_block ex (st # rest) s1) (\<lambda>_ s2. (Val VNone, s2))
             | _ \<Rightarrow> (Val VNone, s1)))"

text \<open>The loops.  Each round runs the body inside \<open>try\<close>: \<open>BreakSignal\<close> leaves the loop,
  \<open>ContinueSignal\<close> starts the next round, anything else goes on up.\<close>

fun repeat_forever_loop :: "nat \<Rightarrow> executor \<Rightarrow> stmt list \<Rightarrow> value action" where
  "repeat_forever_loop 0 ex body s = (Timeout, s)"
| "repeat_forever_loop (Suc fuel) ex body s =
     (case execute_block ex body s of
        (Val _, s1) \<Rightarrow> repeat_forever_loop fuel ex body s1
      | (Raise BreakSignal, s1) \<Rightarrow> (Val VNone, s1)
      | (Raise ContinueSignal, s1) \<Rightarrow> repeat_forever_loop fuel ex body s1
      | r \<Rightarrow> r)"

fun repeat_times_loop :: "nat \<Rightarrow> executor \<Rightarrow> stmt list \<Rightarrow> value action" where
  "repeat_times_loop 0 ex body s = (Val VNone, s)"
| "repeat_times_loop (Suc n) ex body s =
     (case execute_block ex body s of
        (Val _, s1) \<Rightarrow> repeat_times_loop n ex body s1
      | (Raise BreakSignal, s1) \<Rightarrow> (Val VNone, s1)
      | (Raise ContinueSignal, s1) \<Rightarrow> repeat_times_loop n ex body s1
      | r \<Rightarrow> r)"

text \<open>\<open>int(v)\<close> for the count of \<open>repeat N times\<close>; the message of the \<open>ValueError\<close> for a
  string that is no number is left out.\<close>

definition int_of_value :: "value \<Rightarrow> int outcome" where
  "int_of_value v =
     (case v of
        VInt i \<Rightarrow> Val i
      | VBool b \<Rightarrow> Val (if b then 1 else 0)
      | VStr t \<Rightarrow> (case py_int t of Some i \<Rightarrow> Val i | None \<Rightarrow> Unsupported)
      | _ \<Rightarrow> Raise TypeError)"

definition execute_repeat_times :: "evaluator \<Rightarrow> executor \<Rightarrow> expr \<Rightarrow> stmt list \<Rightarrow> value action" where
  "execute_repeat_times ev ex count_expr body s =
     and_then (ev count_expr s) (\<lambda>v s1.
     and_then (int_of_value v, s1) (\<lambda>count s2. repeat_times_loop (nat count) ex body s2))"

fun repeat_until_loop :: "nat \<Rightarrow> evaluator \<Rightarrow> executor \<Rightarrow> expr \<Rightarrow> stmt list \<Rightarrow> value action" where
  "repeat_until_loop 0 ev ex condition body s = (Timeout, s)"
| "repeat_until_loop (Suc fuel) ev ex condition body s =
     and_then (ev condition s) (\<lambda>c s1.
       if truthy s1 c then (Val VNone, s1)
       else (case execute_block ex body s1 of
               (Val _, s2) \<Rightarrow> repeat_until_loop fuel ev ex condition body s2
             | (Raise BreakSignal, s2) \<Rightarrow> (Val VNone, s2)
             | (Raise ContinueSignal, s2) \<Rightarrow> repeat_until_loop fuel ev ex condition body s2
             | r \<Rightarrow> r))"

fun do_until_loop :: "nat \<Rightarrow> evaluator \<Rightarrow> executor \<Rightarrow> stmt list \<Rightarrow> expr \<Rightarrow> value action" where
  "do_until_loop 0 ev ex body condition s = (Timeout, s)"
| "do_until_loop (Suc fuel) ev ex body condition s =
     (case execute_block ex body s of
        (Val _, s1) \<Rightarrow>
          and_then (ev condition s1) (\<lambda>c s2.
            if truthy s2 c then (Val VNone, s2) else do_until_loop fuel ev ex body condition s2)
      | (Raise BreakSignal, s1) \<Rightarrow> (Val VNone, s1)
      | (Raise ContinueSignal, s1) \<Rightarrow> do_until_loop fuel ev ex body condition s1
      | r \<Rightarrow> r)"

text \<open>\<open>closure_env\<close> is a copy of the variables of the current scope.\<close>

definition execute_function_def :: "string \<Rightarrow> string list \<Rightarrow> stmt list \<Rightarrow> value action" where
  "execute_function_def name ps stmts s =
     (let env = (case runtime s of [] \<Rightarrow> [] | f # _ \<Rightarrow> variables f)
      in (Val VNone, s\<lparr>runtime := define_function name (FunctionObject ps stmts env) (runtime s)\<rparr>))"

definition execute_return :: "evaluator \<Rightarrow> expr option \<Rightarrow> value action" where
  "execute_return ev value_expr s =
     (case value_expr of
        Some e \<Rightarrow> and_then (ev e s) (\<lambda>v s1. (Raise (ReturnSignal v), s1))
      | None \<Rightarrow> (Raise (ReturnSignal VNone), s))"

definition execute_list_add :: "evaluator \<Rightarrow> expr \<Rightarrow> expr \<Rightarrow> value action" where
  "execute_list_add ev list_expr value_expr s =
     and_then (ev list_expr s) (\<lambda>list_obj s1.
       case list_obj of
         VList r \<Rightarrow> and_then (ev value_expr s1) (\<lambda>v s2. (Val VNone, list_append r v s2))
       | _ \<Rightarrow> (Raise (RuntimeError ''add expects a list''), s1))"

text \<open>The body of the \<open>try\<close> of \<open>execute\<close>.\<close>

definition execute_node :: "nat \<Rightarrow> evaluator \<Rightarrow> executor \<Rightarrow> stmt \<Rightarrow> value action" where
  "execute_node fuel ev ex node s =
     (case node of
        Assignment target e \<Rightarrow> execute_assignment ev target e s
      | Mutation target op e \<Rightarrow> execute_mutation ev target op e s
      | SayStatement parts \<Rightarrow> execute_say ev parts s
      | PrintStatement e \<Rightarrow> execute_print ev e s
      | IfStatement c t e \<Rightarrow> execute_if ev ex c t e s
      | RepeatForever stmts \<Rightarrow> repeat_forever_loop fuel ex stmts s
      | RepeatTimes c stmts \<Rightarrow> execute_repeat_times ev ex c stmts s
      | RepeatUntil c stmts \<Rightarrow> repeat_until_loop fuel ev ex c stmts s
      | DoUntil stmts c \<Rightarrow> do_until_loop fuel ev ex stmts c s
      | BreakStatement \<Rightarrow> (Raise BreakSignal, s)
      | ContinueStatement \<Rightarrow> (Raise ContinueSignal, s)
      | StopStatement \<Rightarrow> (Raise StopSignal, s)
      | FunctionDef name ps stmts \<Rightarrow> execute_function_def name ps stmts s
      | ReturnStatement e \<Rightarrow> execute_return ev e s
      | ListAdd l e \<Rightarrow> execute_list_add ev l e s
      | FunctionCallStatement name args \<Rightarrow> evaluate_function_call ev ex name args s)"

text \<open>The handlers of \<open>execute\<close>: the four control signals are raised again, a
  \<open>RuntimeError\<close> is raised again in debug mode and printed otherwise.  Nothing else is
  caught.\<close>

definition execute_handler :: "value outcome \<times> interp \<Rightarrow> value outcome \<times> interp" where
  "execute_handler r =
     (case r of
        (Raise BreakSignal, s) \<Rightarrow> (Raise BreakSignal, s)
      | (Raise ContinueSignal, s) \<Rightarrow> (Raise ContinueSignal, s)
      | (Raise StopSignal, s) \<Rightarrow> (Raise StopSignal, s)
      | (Raise (ReturnSignal v), s) \<Rightarrow> (Raise (ReturnSignal v), s)
      | (Raise (RuntimeError msg), s) \<Rightarrow>
          if debug s then (Raise (RuntimeError msg), s) else (Val VNone, print_line msg s)
      | _ \<Rightarrow> r)"

fun evaluate :: "nat \<Rightarrow> expr \<Rightarrow> value action"
  and execute :: "nat \<Rightarrow> stmt \<Rightarrow> value action" where
  "evaluate 0 node s = (Timeout, s)"
| "evaluate (Suc fuel) node s =
     evaluate_handler
       (evaluate_node fuel (\<lambda>e s'. evaluate fuel e s') (\<lambda>st s'. execute fuel st s') node s)"
| "execute 0 node s = (Timeout, s)"
| "execute (Suc fuel) node s =
     execute_handler
       (execute_node fuel (\<lambda>e s'. evaluate fuel e s') (\<lambda>st s'. execute fuel st s') node s)"

subsection \<open>The driver (gopa.py, run\_file)\<close>

text \<open>
  \<open>run_file\<close> executes the statements of the program in turn.  A control signal that
  reaches it ends the run with exit code 0; any other exception is raised again in debug
  mode and otherwise ends the run with exit code 1, after
  \<open>print(f"Runtime error: {e}", file=sys.stderr)\<close>.  The result holds the exit code, or the
  exception that leaves \<open>run_file\<close>, and the text written to the standard error stream.
\<close>

datatype run_result = Exit int | Uncaught exn | RunUnsupported | RunTimeout

definition exn_text :: "exn \<Rightarrow> string option" where
  "exn_text e =
     (case e of
        RuntimeError m \<Rightarrow> Some m
      | NameError m \<Rightarrow> Some m
      | ValueError m \<Rightarrow> Some m
      | _ \<Rightarrow> None)"

definition is_signal :: "exn \<Rightarrow> bool" where
  "is_signal e =
     (case e of
        ReturnSignal _ \<Rightarrow> True | BreakSignal \<Rightarrow> True | ContinueSignal \<Rightarrow> True | StopSignal \<Rightarrow> True
      | _ \<Rightarrow> False)"

definition run_file :: "nat \<Rightarrow> stmt list \<Rightarrow> interp \<Rightarrow> run_result \<times> interp \<times> string" where
  "run_file fuel statements s =
     (case execute_block (\<lambda>st s'. execute fuel st s') statements s of
        (Val _, s1) \<Rightarrow> (Exit 0, s1, [])
      | (Raise e, s1) \<Rightarrow>
          if is_signal e then (Exit 0, s1, [])
          else if debug s1 then (Uncaught e, s1, [])
          else (case exn_text e of
                  Some m \<Rightarrow> (Exit 1, s1, ''Runtime error: '' @ m @ [CHR 0x0A])
                | None \<Rightarrow> (RunUnsupported, s1, []))
      | (Unsupported, s1) \<Rightarrow> (RunUnsupported, s1, [])
      | (Timeout, s1) \<Rightarrow> (RunTimeout, s1, []))"

section \<open>Properties of the permission layer\<close>

lemma py_split_nonempty: "py_split sep s \<noteq> []"
  by (induction s) (auto split: list.splits)

lemma py_join_split: "py_join sep (py_split sep s) = s"
proof (induction s)
  case Nil
  show ?case by simp
next
  case (Cons c cs)
  obtain p ps where ps: "py_split sep cs = p # ps"
    using py_split_nonempty [of sep cs] by (cases "py_split sep cs") auto
  show ?case
  proof (cases "c = sep")
    case True
    with Cons ps show ?thesis by simp
  next
    case False
    with Cons ps show ?thesis by (cases ps) auto
  qed
qed

lemma py_split_no_sep: "p \<in> set (py_split sep s) \<Longrightarrow> sep \<notin> set p"
proof (induction s arbitrary: p)
  case Nil
  then show ?case by simp
next
  case (Cons c cs)
  obtain q qs where qs: "py_split sep cs = q # qs"
    using py_split_nonempty [of sep cs] by (cases "py_split sep cs") auto
  show ?case
  proof (cases "c = sep")
    case True
    with Cons.prems Cons.IH show ?thesis by auto
  next
    case False
    with Cons.prems qs have "p = c # q \<or> p \<in> set qs" by auto
    then show ?thesis
    proof
      assume "p = c # q"
      moreover have "sep \<notin> set q" using Cons.IH [of q] qs by simp
      ultimately show ?thesis using False by auto
    next
      assume "p \<in> set qs"
      then show ?thesis using Cons.IH [of p] qs by simp
    qed
  qed
qed

text \<open>
  C9.  \<open>check_timers\<close> returns normally exactly when the timers or the graphics
  capability is granted, and \<open>check_cron\<close> exactly when the cron or the timers capability is
  granted; otherwise each raises its permission error.
\<close>

theorem check_timers_cron_iff:
  "(check_timers p = Inr ()) = (timers p \<or> graphics p) \<and>
   (check_timers p = Inl (RuntimeError ''Timer access not allowed'')) = (\<not> (timers p \<or> graphics p)) \<and>
   (check_cron p = Inr ()) = (cron p \<or> timers p) \<and>
   (check_cron p = Inl (RuntimeError ''Cron access not allowed'')) = (\<not> (cron p \<or> timers p))"
  by (simp add: check_timers_def check_cron_def)

theorem check_timers_cron_iff_witness:
  "check_timers (Permissions_init ''graphics'') = Inr () \<and>
   check_cron (Permissions_init ''graphics'') = Inl (RuntimeError ''Cron access not allowed'') \<and>
   check_cron (Permissions_init ''timers'') = Inr () \<and>
   check_timers (Permissions_init ''cron'') = Inl (RuntimeError ''Timer access not allowed'')"
  using check_timers_cron_iff [of "Permissions_init ''graphics''"]
    check_timers_cron_iff [of "Permissions_init ''timers''"]
    check_timers_cron_iff [of "Permissions_init ''cron''"]
  by (simp add: Permissions_init_def perms_of_def py_lower_def py_lower_char_def py_strip_def
      py_lstrip_def py_rstrip_def py_isspace_def)

lemma py_split_no_sep_id: "sep \<notin> set p \<Longrightarrow> py_split sep p = [p]"
  by (induction p) auto

lemma py_split_append_sep:
  "sep \<notin> set p \<Longrightarrow> py_split sep (p @ sep # rest) = p # py_split sep rest"
  by (induction p) auto

lemma py_split_join:
  "ps \<noteq> [] \<Longrightarrow> \<forall>p \<in> set ps. sep \<notin> set p \<Longrightarrow> py_split sep (py_join sep ps) = ps"
proof (induction sep ps rule: py_join.induct)
  case (1 sep)
  then show ?case by simp
next
  case (2 sep p)
  then show ?case by (simp add: py_split_no_sep_id)
next
  case (3 sep p q ps)
  then show ?case by (simp add: py_split_append_sep)
qed

lemma dropWhile_skip:
  "\<forall>c \<in> set l. P c \<Longrightarrow> \<not> P x \<Longrightarrow> dropWhile P (l @ x # xs) = x # xs"
  by (induction l) auto

lemma rev_take_drop: "rev (dropWhile P (rev xs)) @ rev (takeWhile P (rev xs)) = xs"
  by (metis rev_append rev_rev_ident takeWhile_dropWhile_id)

lemma py_strip_core:
  assumes "\<forall>c \<in> set before. py_isspace c" "\<forall>c \<in> set after. py_isspace c"
    and "core \<noteq> []" "\<not> py_isspace (hd core)" "\<not> py_isspace (last core)"
  shows "py_strip (before @ core @ after) = core"
proof -
  have l: "py_lstrip (before @ core @ after) = core @ after"
    using assms(1,3,4) by (cases core) (simp_all add: py_lstrip_def dropWhile_append2)
  have "dropWhile py_isspace (rev after @ rev core) = rev core"
    using assms(2,3,5) by (cases core rule: rev_cases) (simp_all add: dropWhile_skip)
  then have "py_rstrip (core @ after) = core"
    by (simp add: py_rstrip_def)
  with l show ?thesis by (simp add: py_strip_def)
qed

lemma py_strip_decompose:
  "\<exists>before after. p = before @ py_strip p @ after \<and>
     (\<forall>c \<in> set before. py_isspace c) \<and> (\<forall>c \<in> set after. py_isspace c)"
proof -
  let ?m = "dropWhile py_isspace p"
  let ?b = "takeWhile py_isspace p"
  let ?a = "rev (takeWhile py_isspace (rev ?m))"
  have 1: "p = ?b @ ?m" by simp
  have 2: "?m = py_strip p @ ?a"
    by (simp add: py_strip_def py_rstrip_def py_lstrip_def rev_take_drop)
  have 3: "\<forall>c \<in> set ?b. py_isspace c" by (auto dest: set_takeWhileD)
  have 4: "\<forall>c \<in> set ?a. py_isspace c" by (auto dest: set_takeWhileD)
  from 1 2 have "p = ?b @ py_strip p @ ?a" by simp
  with 3 4 show ?thesis by blast
qed

lemma py_isspace_lower: "py_isspace (py_lower_char c) = py_isspace c"
proof -
  have r: "of_char (char_of (of_char c + 32 :: nat)) = (of_char c + 32 :: nat)"
    if "(of_char c :: nat) \<le> 222"
    using that by (simp add: of_char_of)
  show ?thesis
    by (auto simp: py_isspace_def py_lower_char_def Let_def r)
qed

lemma perms_of_iff_appears:
  assumes "name \<noteq> []" "\<not> py_isspace (hd name)" "\<not> py_isspace (last name)"
  shows "(name \<in> set (perms_of perm_string)) = name_appears_in_list name perm_string"
proof
  assume "name \<in> set (perms_of perm_string)"
  then obtain p where p: "p \<in> set (py_split (CHR '','') perm_string)"
      and n: "name = py_lower (py_strip p)"
    by (auto simp: perms_of_def)
  obtain before after where d: "p = before @ py_strip p @ after"
      "\<forall>c \<in> set before. py_isspace c" "\<forall>c \<in> set after. py_isspace c"
    using py_strip_decompose [of p] by blast
  have "before @ py_strip p @ after \<in> set (py_split (CHR '','') perm_string)"
    using p d(1) by simp
  then show "name_appears_in_list name perm_string"
    unfolding name_appears_in_list_def
    using py_split_nonempty [of "CHR '',''" perm_string]
      py_join_split [of "CHR '',''" perm_string] py_split_no_sep [of _ "CHR '',''" perm_string]
      d(2,3) n
    by (intro exI [of _ "py_split (CHR '','') perm_string"] exI [of _ before]
        exI [of _ "py_strip p"] exI [of _ after]) auto
next
  assume "name_appears_in_list name perm_string"
  then obtain entries before core after where e: "entries \<noteq> []"
      "perm_string = py_join (CHR '','') entries" "\<forall>e \<in> set entries. CHR '','' \<notin> set e"
      "before @ core @ after \<in> set entries"
      "\<forall>c \<in> set before. py_isspace c" "\<forall>c \<in> set after. py_isspace c"
      "py_lower core = name"
    unfolding name_appears_in_list_def by blast
  from e(7) assms(1) have c: "core \<noteq> []" by (auto simp: py_lower_def)
  from e(7) c have "hd name = py_lower_char (hd core)" "last name = py_lower_char (last core)"
    by (auto simp: py_lower_def hd_map last_map)
  with assms(2,3) have "\<not> py_isspace (hd core)" "\<not> py_isspace (last core)"
    by (simp_all add: py_isspace_lower)
  with e(5,6) c have s: "py_strip (before @ core @ after) = core"
    by (intro py_strip_core) auto
  from e(1-3) have "py_split (CHR '','') perm_string = entries"
    by (simp add: py_split_join)
  with e(4) have "py_lower (py_strip (before @ core @ after)) \<in> set (perms_of perm_string)"
    by (auto simp: perms_of_def)
  with s e(7) show "name \<in> set (perms_of perm_string)" by simp
qed

text \<open>
  C10.  For a non-empty permission string every capability, \<open>packages\<close> included, is
  granted exactly when its name appears in the comma-separated list that the string is
  (\<open>name_appears_in_list\<close>: some entry between two commas is the name, in any letter
  case, with white space around it at most); \<open>python\<close> and \<open>python_ffi\<close> both grant the
  Python capability.  A non-empty string whose list omits \<open>packages\<close> leaves packages
  denied, and the packages-on default is kept by the empty string.
\<close>

theorem Permissions_init_nonempty:
  "perm_string \<noteq> [] \<Longrightarrow>
     network (Permissions_init perm_string) = name_appears_in_list ''network'' perm_string \<and>
     files (Permissions_init perm_string) = name_appears_in_list ''files'' perm_string \<and>
     graphics (Permissions_init perm_string) = name_appears_in_list ''graphics'' perm_string \<and>
     sound (Permissions_init perm_string) = name_appears_in_list ''sound'' perm_string \<and>
     packages (Permissions_init perm_string) = name_appears_in_list ''packages'' perm_string \<and>
     python_ffi (Permissions_init perm_string) =
       (name_appears_in_list ''python'' perm_string \<or>
        name_appears_in_list ''python_ffi'' perm_string) \<and>
     server (Permissions_init perm_string) = name_appears_in_list ''server'' perm_string \<and>
     timers (Permissions_init perm_string) = name_appears_in_list ''timers'' perm_string \<and>
     cron (Permissions_init perm_string) = name_appears_in_list ''cron'' perm_string \<and>
     state (Permissions_init perm_string) = name_appears_in_list ''state'' perm_string \<and>
     (\<not> name_appears_in_list ''packages'' perm_string \<longrightarrow>
        \<not> packages (Permissions_init perm_string)) \<and>
     packages (Permissions_init [])"
proof -
  assume ne: "perm_string \<noteq> []"
  have 1: "(''network'' \<in> set (perms_of perm_string)) = name_appears_in_list ''network'' perm_string"
    by (rule perms_of_iff_appears; code_simp)
  have 2: "(''files'' \<in> set (perms_of perm_string)) = name_appears_in_list ''files'' perm_string"
    by (rule perms_of_iff_appears; code_simp)
  have 3: "(''graphics'' \<in> set (perms_of perm_string)) = name_appears_in_list ''graphics'' perm_string"
    by (rule perms_of_iff_appears; code_simp)
  have 4: "(''sound'' \<in> set (perms_of perm_string)) = name_appears_in_list ''sound'' perm_string"
    by (rule perms_of_iff_appears; code_simp)
  have 5: "(''packages'' \<in> set (perms_of perm_string)) = name_appears_in_list ''packages'' perm_string"
    by (rule perms_of_iff_appears; code_simp)
  have 6: "(''python'' \<in> set (perms_of perm_string)) = name_appears_in_list ''python'' perm_string"
    by (rule perms_of_iff_appears; code_simp)
  have 7: "(''python_ffi'' \<in> set (perms_of perm_string)) = name_appears_in_list ''python_ffi'' perm_string"
    by (rule perms_of_iff_appears; code_simp)
  have 8: "(''server'' \<in> set (perms_of perm_string)) = name_appears_in_list ''server'' perm_string"
    by (rule perms_of_iff_appears; code_simp)
  have 9: "(''timers'' \<in> set (perms_of perm_string)) = name_appears_in_list ''timers'' perm_string"
    by (rule perms_of_iff_appears; code_simp)
  have 10: "(''cron'' \<in> set (perms_of perm_string)) = name_appears_in_list ''cron'' perm_string"
    by (rule perms_of_iff_appears; code_simp)
  have 11: "(''state'' \<in> set (perms_of perm_string)) = name_appears_in_list ''state'' perm_string"
    by (rule perms_of_iff_appears; code_simp)
  have i: "Permissions_init perm_string =
      \<lparr> network = name_appears_in_list ''network'' perm_string,
        files = name_appears_in_list ''files'' perm_string,
        graphics = name_appears_in_list ''graphics'' perm_string,
        sound = name_appears_in_list ''sound'' perm_string,
        packages = name_appears_in_list ''packages'' perm_string,
        python_ffi = (name_appears_in_list ''python'' perm_string \<or>
                      name_appears_in_list ''python_ffi'' perm_string),
        server = name_appears_in_list ''server'' perm_string,
        timers = name_appears_in_list ''timers'' perm_string,
        cron = name_appears_in_list ''cron'' perm_string,
        state = name_appears_in_list ''state'' perm_string \<rparr>"
    using ne unfolding Permissions_init_def Let_def 1 2 3 4 5 6 7 8 9 10 11 by simp
  have e: "packages (Permissions_init [])"
    by (simp add: Permissions_init_def Permissions_default_def)
  show ?thesis unfolding i using e by simp
qed

lemma perms_of_Network_files: "perms_of ''Network , FILES'' = [''network'', ''files'']"
  by code_simp

theorem Permissions_init_nonempty_witness:
  "''Network , FILES'' \<noteq> [] \<and>
   name_appears_in_list ''network'' ''Network , FILES'' \<and>
   name_appears_in_list ''files'' ''Network , FILES'' \<and>
   \<not> name_appears_in_list ''packages'' ''Network , FILES'' \<and>
   \<not> name_appears_in_list ''cron'' ''Network , FILES'' \<and>
   network (Permissions_init ''Network , FILES'') \<and>
   files (Permissions_init ''Network , FILES'') \<and>
   \<not> packages (Permissions_init ''Network , FILES'') \<and>
   \<not> cron (Permissions_init ''Network , FILES'') \<and>
   packages (Permissions_init [])"
proof -
  have f: "Permissions_init ''Network , FILES'' =
      \<lparr> network = True, files = True, graphics = False, sound = False, packages = False,
        python_ffi = False, server = False, timers = False, cron = False, state = False \<rparr>"
    by (simp add: Permissions_init_def Let_def perms_of_Network_files)
  show ?thesis
    using Permissions_init_nonempty [of "''Network , FILES''"] unfolding f by simp
qed

section \<open>Properties of the scheduler\<close>

lemma parse_cron_every_minute: "parse_cron ''every minute'' = Inr wildcard_fields"
  by (simp add: parse_cron_def starts_with_def py_lower_def py_lower_char_def)

lemma matches_cron_wildcard: "matches_cron now wildcard_fields"
  by (simp add: matches_cron_def matches_def wildcard_fields_def)

lemma cron_loop_done: "length (cron_tasks s) \<le> i \<Longrightarrow> cron_loop run now i s = Some s"
  by (subst cron_loop.simps) simp

lemma every_loop_done: "length (every_tasks s) \<le> i \<Longrightarrow> every_loop run i s = Some s"
  by (subst every_loop.simps) simp

lemma step_every_minute:
  assumes vt: "virtual_time s"
    and idle: "after_tasks s = []" "every_tasks s = []" "jobs s = []"
    and one: "cron_tasks s = [\<lparr>c_schedule = sch, c_fields = wildcard_fields, c_body = b\<rparr>]"
    and fts: "fts (current_time s + dt) \<noteq> None"
  shows "step (bump_run g) fts dt s =
           Some (Returned, s\<lparr>current_time := current_time s + dt,
                              interpreter := g b (interpreter s)\<rparr>)"
proof -
  obtain now where now: "fts (current_time s + dt) = Some now" using fts by auto
  let ?s1 = "s\<lparr>current_time := current_time s + dt\<rparr>"
  have c: "cron_loop (bump_run g) now 0 ?s1 = Some (?s1\<lparr>interpreter := g b (interpreter s)\<rparr>)"
    by (subst cron_loop.simps)
       (simp add: one matches_cron_wildcard bump_run_def cron_loop_done)
  show ?thesis
    using vt idle now c by (simp add: step_def every_loop_done Let_def)
qed

lemma run_steps_wildcard:
  assumes vt: "virtual_time s"
    and idle: "after_tasks s = []" "every_tasks s = []" "jobs s = []"
    and one: "cron_tasks s = [\<lparr>c_schedule = sch, c_fields = wildcard_fields, c_body = b\<rparr>]"
    and fts: "\<forall>t \<in> set (clock_readings (current_time s) dts). fts t \<noteq> None"
  shows "run_steps (bump_run g) fts dts s =
           Some (Returned, s\<lparr>current_time := foldl (+) (current_time s) dts,
                              interpreter := (g b ^^ length dts) (interpreter s)\<rparr>)"
  using vt idle one fts
proof (induction dts arbitrary: s)
  case Nil
  then show ?case by simp
next
  case (Cons dt dts)
  let ?s' = "s\<lparr>current_time := current_time s + dt, interpreter := g b (interpreter s)\<rparr>"
  have st: "step (bump_run g) fts dt s = Some (Returned, ?s')"
    using Cons.prems by (intro step_every_minute) auto
  have "run_steps (bump_run g) fts dts ?s' =
          Some (Returned, ?s'\<lparr>current_time := foldl (+) (current_time ?s') dts,
                              interpreter := (g b ^^ length dts) (interpreter ?s')\<rparr>)"
    using Cons.prems by (intro Cons.IH) auto
  then show ?case using st by (simp add: funpow_swap1)
qed

lemma Scheduler_cron_every_minute:
  "Scheduler_cron ''every minute'' b (Scheduler_init True w) =
     Inr \<lparr> virtual_time = True, current_time = 0, jobs = [], after_tasks = [], every_tasks = [],
           cron_tasks = [\<lparr>c_schedule = ''every minute'', c_fields = wildcard_fields, c_body = b\<rparr>],
           running = False, fresh_id = 0, interpreter = w \<rparr>"
  by (simp add: Scheduler_cron_def parse_cron_every_minute Scheduler_init_def)

lemma civil_from_days_epoch: "civil_from_days 0 = (1970, 1, 1)"
  by code_simp

lemma utc_small:
  assumes "0 \<le> t" "t < 86400"
  shows "\<exists>d. utc_fromtimestamp t = Some d"
proof -
  from assms have "0 \<le> \<lfloor>t\<rfloor>" "\<lfloor>t\<rfloor> < 86400"
    by (simp_all add: floor_less_iff)
  then have d: "\<lfloor>t\<rfloor> div 86400 = 0"
    by (rule div_pos_pos_trivial)
  show ?thesis
    unfolding utc_fromtimestamp_def Let_def d civil_from_days_epoch by simp
qed

lemma step_fromtimestamp_fails:
  assumes "virtual_time s" "after_tasks s = []" "every_tasks s = []" "jobs s = []"
    and "fts (current_time s + dt) = None"
  shows "step run fts dt s = Some (Raised, s\<lparr>current_time := current_time s + dt\<rparr>)"
  using assms by (simp add: step_def every_loop_done Let_def)

lemma run_steps_append:
  "run_steps run fts (xs @ ys) s =
     (case run_steps run fts xs s of
        Some (Returned, s') \<Rightarrow> run_steps run fts ys s'
      | r \<Rightarrow> r)"
  by (induction xs arbitrary: s) (auto split: option.splits prod.splits step_result.splits)

lemma utc_huge: "utc_fromtimestamp (foldl (+) 0 [1/10, 1/10, 1/10] + 1000000000000) = None"
  by code_simp

lemma ten_steps_same_minute:
  "foldl (+) (0::rat) [1/10, 1/10, 1/10, 1/10, 1/10, 1/10, 1/10, 1/10, 1/10, 1/10] < 60"
  by simp

text \<open>
  The example of C4: ten calls \<open>step(0.1)\<close> on a fresh virtual-time scheduler holding the
  task \<open>every minute\<close>.  All ten calls return, the clock stays inside the first minute, and
  the body has run ten times, not once at most.
\<close>

theorem cron_every_minute_counterexample:
  "Scheduler_cron ''every minute'' ''tick'' (Scheduler_init True 0) = Inr every_minute_scheduler \<and>
   map_option fst (run_steps (bump_run count_firing) utc_fromtimestamp
       [1/10, 1/10, 1/10, 1/10, 1/10, 1/10, 1/10, 1/10, 1/10, 1/10] every_minute_scheduler) =
     Some Returned \<and>
   map_option (interpreter \<circ> snd) (run_steps (bump_run count_firing) utc_fromtimestamp
       [1/10, 1/10, 1/10, 1/10, 1/10, 1/10, 1/10, 1/10, 1/10, 1/10] every_minute_scheduler) =
     Some 10 \<and>
   foldl (+) (0::rat) [1/10, 1/10, 1/10, 1/10, 1/10, 1/10, 1/10, 1/10, 1/10, 1/10] < 60 \<and>
   \<not> (10 \<le> (1::nat))"
proof -
  have a: "Scheduler_cron ''every minute'' ''tick'' (Scheduler_init True 0) = Inr every_minute_scheduler"
    by (simp add: Scheduler_cron_every_minute every_minute_scheduler_def)
  have b: "run_steps (bump_run count_firing) utc_fromtimestamp
       [1/10, 1/10, 1/10, 1/10, 1/10, 1/10, 1/10, 1/10, 1/10, 1/10] every_minute_scheduler =
     Some (Returned, every_minute_scheduler\<lparr>current_time := 1, interpreter := 10\<rparr>)"
    by (subst run_steps_wildcard [where sch = "''every minute''" and b = "''tick''"])
       (simp_all add: every_minute_scheduler_def utc_small count_firing_def)
  show ?thesis unfolding b using a ten_steps_same_minute by simp
qed

text \<open>
  C4, as amended.  Take a fresh virtual-time scheduler whose only task is a cron task
  registered with the schedule \<open>every minute\<close>, with a body that runs to its end and leaves
  the scheduler alone (\<open>bump_run g\<close>: the body changes the state of the interpreter only).
  The clock is any type with an addition, so nothing depends on its arithmetic.

  \<^item> As long as \<open>datetime.fromtimestamp\<close> accepts the clock reading that each call produces,
    the calls \<open>step(dt)\<close> for the \<open>dt\<close> of a list \<open>dts\<close> all return and the body has run once
    per call, \<open>length dts\<close> times, whatever the \<open>dt\<close> are and whether or not a minute of
    virtual time has gone by.

  \<^item> The first call whose clock reading \<open>datetime.fromtimestamp\<close> rejects raises before the
    loop over the cron tasks: the clock has advanced, the body has not run for that call,
    and the calls after it are not reached.
\<close>

theorem cron_every_minute_fires_each_step:
  fixes dts :: "('t::{ord,plus,zero}) list"
  shows "\<exists>s0. Scheduler_cron ''every minute'' b (Scheduler_init True w) = Inr s0 \<and>
     ((\<forall>t \<in> set (clock_readings 0 dts). fromtimestamp t \<noteq> None) \<longrightarrow>
        run_steps (bump_run g) fromtimestamp dts s0 =
          Some (Returned, s0\<lparr>current_time := foldl (+) 0 dts,
                              interpreter := (g b ^^ length dts) w\<rparr>) \<and>
        (\<forall>dt rest. fromtimestamp (foldl (+) 0 dts + dt) = None \<longrightarrow>
           run_steps (bump_run g) fromtimestamp (dts @ dt # rest) s0 =
             Some (Raised, s0\<lparr>current_time := foldl (+) 0 dts + dt,
                              interpreter := (g b ^^ length dts) w\<rparr>)))"
proof -
  let ?s0 = "\<lparr> virtual_time = True, current_time = 0::'t, jobs = [], after_tasks = [],
       every_tasks = [],
       cron_tasks = [\<lparr>c_schedule = ''every minute'', c_fields = wildcard_fields, c_body = b\<rparr>],
       running = False, fresh_id = 0, interpreter = w \<rparr>"
  let ?sn = "?s0\<lparr>current_time := foldl (+) 0 dts, interpreter := (g b ^^ length dts) w\<rparr>"
  have init: "Scheduler_cron ''every minute'' b (Scheduler_init True w) = Inr ?s0"
    by (rule Scheduler_cron_every_minute)
  have run: "run_steps (bump_run g) fromtimestamp dts ?s0 = Some (Returned, ?sn)"
    if "\<forall>t \<in> set (clock_readings 0 dts). fromtimestamp t \<noteq> None"
  proof -
    have "run_steps (bump_run g) fromtimestamp dts ?s0 =
          Some (Returned, ?s0\<lparr>current_time := foldl (+) (current_time ?s0) dts,
                               interpreter := (g b ^^ length dts) (interpreter ?s0)\<rparr>)"
      using that by (intro run_steps_wildcard) simp_all
    then show ?thesis by simp
  qed
  have fail: "run_steps (bump_run g) fromtimestamp (dts @ dt # rest) ?s0 =
        Some (Raised, ?s0\<lparr>current_time := foldl (+) 0 dts + dt,
                           interpreter := (g b ^^ length dts) w\<rparr>)"
    if ok: "\<forall>t \<in> set (clock_readings 0 dts). fromtimestamp t \<noteq> None"
      and no: "fromtimestamp (foldl (+) 0 dts + dt) = None" for dt rest
  proof -
    have "step (bump_run g) fromtimestamp dt ?sn =
            Some (Raised, ?sn\<lparr>current_time := current_time ?sn + dt\<rparr>)"
      using no by (intro step_fromtimestamp_fails) simp_all
    then have "step (bump_run g) fromtimestamp dt ?sn =
            Some (Raised, ?s0\<lparr>current_time := foldl (+) 0 dts + dt,
                               interpreter := (g b ^^ length dts) w\<rparr>)"
      by simp
    then show ?thesis
      unfolding run_steps_append run [OF ok] by simp
  qed
  show ?thesis
    using init run fail by (intro exI [of _ ?s0]) blast
qed

theorem cron_every_minute_fires_each_step_witness:
  "\<exists>s0. Scheduler_cron ''every minute'' ''tick'' (Scheduler_init True 0) = Inr s0 \<and>
        run_steps (bump_run count_firing) utc_fromtimestamp [1/10, 1/10, 1/10] s0 =
          Some (Returned, s0\<lparr>current_time := foldl (+) 0 [1/10, 1/10, 1/10],
                              interpreter := 3\<rparr>) \<and>
        run_steps (bump_run count_firing) utc_fromtimestamp
            ([1/10, 1/10, 1/10] @ [1000000000000, 1/10]) s0 =
          Some (Raised, s0\<lparr>current_time := foldl (+) 0 [1/10, 1/10, 1/10] + 1000000000000,
                            interpreter := 3\<rparr>)"
proof -
  have h: "\<forall>t \<in> set (clock_readings 0 [1/10, 1/10, 1/10 :: rat]). utc_fromtimestamp t \<noteq> None"
    using utc_small by auto
  have n: "(count_firing ''tick'' ^^ length [1/10, 1/10, 1/10 :: rat]) 0 = 3"
    by (simp add: count_firing_def)
  obtain s0 where s0: "Scheduler_cron ''every minute'' ''tick'' (Scheduler_init True 0) = Inr s0"
    and r: "(\<forall>t \<in> set (clock_readings 0 [1/10, 1/10, 1/10 :: rat]). utc_fromtimestamp t \<noteq> None) \<longrightarrow>
        run_steps (bump_run count_firing) utc_fromtimestamp [1/10, 1/10, 1/10] s0 =
          Some (Returned, s0\<lparr>current_time := foldl (+) 0 [1/10, 1/10, 1/10],
                              interpreter := 3\<rparr>) \<and>
        (\<forall>dt rest. utc_fromtimestamp (foldl (+) 0 [1/10, 1/10, 1/10] + dt) = None \<longrightarrow>
           run_steps (bump_run count_firing) utc_fromtimestamp ([1/10, 1/10, 1/10] @ dt # rest) s0 =
             Some (Raised, s0\<lparr>current_time := foldl (+) 0 [1/10, 1/10, 1/10] + dt,
                              interpreter := 3\<rparr>))"
    using cron_every_minute_fires_each_step
      [of "''tick''" 0 "[1/10, 1/10, 1/10 :: rat]" utc_fromtimestamp count_firing]
    unfolding n by blast
  from r h have 1: "run_steps (bump_run count_firing) utc_fromtimestamp [1/10, 1/10, 1/10] s0 =
          Some (Returned, s0\<lparr>current_time := foldl (+) 0 [1/10, 1/10, 1/10],
                              interpreter := 3\<rparr>)"
    and 2: "\<forall>dt rest. utc_fromtimestamp (foldl (+) 0 [1/10, 1/10, 1/10] + dt) = None \<longrightarrow>
           run_steps (bump_run count_firing) utc_fromtimestamp ([1/10, 1/10, 1/10] @ dt # rest) s0 =
             Some (Raised, s0\<lparr>current_time := foldl (+) 0 [1/10, 1/10, 1/10] + dt,
                              interpreter := 3\<rparr>)"
    by blast+
  from 2 utc_huge have 3: "run_steps (bump_run count_firing) utc_fromtimestamp
            ([1/10, 1/10, 1/10] @ [1000000000000, 1/10]) s0 =
          Some (Raised, s0\<lparr>current_time := foldl (+) 0 [1/10, 1/10, 1/10] + 1000000000000,
                            interpreter := 3\<rparr>)"
    by blast
  from s0 1 3 show ?thesis by blast
qed

section \<open>Properties of the evaluator\<close>

lemma and_then_Val [simp]: "and_then (Val a, s) f = f a s"
  by (simp add: and_then_def)

lemma evaluate_handler_Val [simp]: "evaluate_handler (Val v, s) = (Val v, s)"
  by (simp add: evaluate_handler_def)

lemma execute_handler_Val [simp]: "execute_handler (Val v, s) = (Val v, s)"
  by (simp add: execute_handler_def)

text \<open>What the handler of \<open>execute\<close> does with each kind of exception.\<close>

lemma execute_handler_RuntimeError:
  "execute_handler (Raise (RuntimeError msg), s) =
     (if debug s then (Raise (RuntimeError msg), s) else (Val VNone, print_line msg s))"
  by (simp add: execute_handler_def)

lemma execute_handler_signal:
  "is_signal e \<Longrightarrow> execute_handler (Raise e, s) = (Raise e, s)"
  by (cases e) (simp_all add: execute_handler_def is_signal_def)

lemma execute_handler_NameError:
  "execute_handler (Raise (NameError msg), s) = (Raise (NameError msg), s)"
  by (simp add: execute_handler_def)

text \<open>
  C2, as amended.  For a binary \<open>and\<close> or \<open>or\<close> both operands are evaluated, the left one
  first and the right one in the state the left one leaves, also when the truth value of the
  left operand settles the result.  When both return values the result is the left value if
  its truth value settles the result and the right value otherwise; when the right operand
  does not return a value, its outcome is the outcome of the whole expression (a
  \<open>RuntimeError\<close> going through the handler of \<open>evaluate\<close>).
\<close>

theorem and_or_evaluate_both_operands:
  assumes "evaluate n l s = (Val a, s1)"
    and "evaluate n r s1 = (res, s2)"
  shows "evaluate (Suc n) (BinaryOp l ''and'' r) s =
           evaluate_handler
             (case res of Val b \<Rightarrow> Val (if truthy s2 a then b else a) | _ \<Rightarrow> res, s2) \<and>
         evaluate (Suc n) (BinaryOp l ''or'' r) s =
           evaluate_handler
             (case res of Val b \<Rightarrow> Val (if truthy s2 a then a else b) | _ \<Rightarrow> res, s2)"
  using assms
  by (cases res) (simp_all add: evaluate_node_def evaluate_binary_op_def and_then_def)

lemma evaluate_False_2:
  "evaluate 2 (BooleanLiteral False) (Interpreter_init False) =
     (Val (VBool False), Interpreter_init False)"
  by code_simp

lemma evaluate_one_by_zero_2:
  "evaluate 2 (BinaryOp (NumberLiteral (IntNum 1)) ''divided_by'' (NumberLiteral (IntNum 0)))
     (Interpreter_init False) =
   (Val VNone, print_line ''Division by zero'' (Interpreter_init False))"
  by code_simp

theorem and_or_evaluate_both_operands_witness:
  "evaluate 3 (BinaryOp (BooleanLiteral False) ''and''
       (BinaryOp (NumberLiteral (IntNum 1)) ''divided_by'' (NumberLiteral (IntNum 0))))
     (Interpreter_init False) =
   (Val (VBool False), print_line ''Division by zero'' (Interpreter_init False)) \<and>
   evaluate 3 (BinaryOp (BooleanLiteral False) ''or''
       (BinaryOp (NumberLiteral (IntNum 1)) ''divided_by'' (NumberLiteral (IntNum 0))))
     (Interpreter_init False) =
   (Val VNone, print_line ''Division by zero'' (Interpreter_init False))"
  using and_or_evaluate_both_operands [OF evaluate_False_2 evaluate_one_by_zero_2]
  by (simp add: truthy_def del: evaluate.simps execute.simps)

theorem and_short_circuit_counterexample:
  "evaluate 3 (BinaryOp (BooleanLiteral False) ''and''
       (BinaryOp (NumberLiteral (IntNum 1)) ''divided_by'' (NumberLiteral (IntNum 0))))
     (Interpreter_init False) =
   (Val (VBool False),
    \<lparr>runtime = Runtime_init, heap = [], output_stream = ''Division by zero'' @ [CHR 0x0A],
      debug = False\<rparr>)"
  by code_simp
text \<open>
  C6, as amended.  An index-access read on a String value never yields a character.
  Whatever the index, in range or not, the read raises the runtime error
  \<open>Cannot index <class 'str'>\<close>; with debug off \<open>evaluate\<close> prints that message to the output
  stream and the read yields Nothing, with debug on the error goes on up.
\<close>

theorem index_read_on_string:
  assumes "evaluate n obj_expr s = (Val (VStr t), s1)"
    and "evaluate n index_expr s1 = (Val index, s2)"
  shows "evaluate (Suc n) (IndexAccess obj_expr index_expr) s =
           (if debug s2
            then (Raise (RuntimeError (''Cannot index <class '' @ [CHR 0x27] @ ''str'' @ [CHR 0x27] @ ''>'')), s2)
            else (Val VNone,
                  print_line (''Cannot index <class '' @ [CHR 0x27] @ ''str'' @ [CHR 0x27] @ ''>'') s2))"
  using assms
  by (simp add: evaluate_node_def index_read_def py_type_def evaluate_handler_def)

lemma evaluate_abc_1:
  "evaluate 1 (StringLiteral ''abc'') (Interpreter_init False) =
     (Val (VStr ''abc''), Interpreter_init False)"
  by code_simp

lemma evaluate_number_1:
  "evaluate 1 (NumberLiteral (IntNum 1)) (Interpreter_init False) =
     (Val (VInt 1), Interpreter_init False)"
  by code_simp

theorem index_read_on_string_witness:
  "evaluate 2 (IndexAccess (StringLiteral ''abc'') (NumberLiteral (IntNum 1))) (Interpreter_init False) =
     (Val VNone,
      print_line (''Cannot index <class '' @ [CHR 0x27] @ ''str'' @ [CHR 0x27] @ ''>'')
        (Interpreter_init False))"
  using index_read_on_string [OF evaluate_abc_1 evaluate_number_1]
  by (simp add: Interpreter_init_def numeral_2_eq_2 del: evaluate.simps execute.simps)

theorem index_read_on_string_counterexample:
  "evaluate 2 (IndexAccess (StringLiteral ''abc'') (NumberLiteral (IntNum 1))) (Interpreter_init False) =
     (Val VNone,
      \<lparr>runtime = Runtime_init, heap = [],
        output_stream = ''Cannot index <class '' @ [CHR 0x27] @ ''str'' @ [CHR 0x27] @ ''>'' @ [CHR 0x0A],
        debug = False\<rparr>) \<and>
   fst (evaluate 2 (IndexAccess (StringLiteral ''abc'') (NumberLiteral (IntNum 1)))
          (Interpreter_init False)) \<noteq> Val (VStr ''b'')"
  by code_simp

text \<open>
  C7.  Let the object of an index target evaluate to a list and the index to an integer
  outside the bounds of that list.  Then assigning through the target raises the runtime
  error \<open>Index i out of range\<close> and leaves the state as the evaluation of object and index
  left it, the list included (the assignment statement prints the message when debug is
  off); reading the same index raises nothing and yields Nothing.
\<close>

theorem list_index_out_of_range:
  assumes "evaluate n obj_expr s = (Val (VList r), s1)"
    and "evaluate n index_expr s1 = (Val (VInt i), s2)"
    and "i < 0 \<or> int (length (list_at s2 r)) \<le> i"
    and "evaluate n value_expr s0 = (Val v, s)"
  shows "set_target (evaluate n) (IndexAccess obj_expr index_expr) v s =
           (Raise (RuntimeError (''Index '' @ py_str_int i @ '' out of range'')), s2) \<and>
         execute (Suc n) (Assignment (IndexAccess obj_expr index_expr) value_expr) s0 =
           (if debug s2
            then (Raise (RuntimeError (''Index '' @ py_str_int i @ '' out of range'')), s2)
            else (Val VNone, print_line (''Index '' @ py_str_int i @ '' out of range'') s2)) \<and>
         list_at (print_line (''Index '' @ py_str_int i @ '' out of range'') s2) r = list_at s2 r \<and>
         evaluate (Suc n) (IndexAccess obj_expr index_expr) s = (Val VNone, s2)"
proof -
  have st: "set_target (evaluate n) (IndexAccess obj_expr index_expr) v s =
      (Raise (RuntimeError (''Index '' @ py_str_int i @ '' out of range'')), s2)"
    using assms(1-3)
    by (auto simp: set_target_def as_int_def index_error_def py_str_def)
  have ex: "execute (Suc n) (Assignment (IndexAccess obj_expr index_expr) value_expr) s0 =
      execute_handler (set_target (evaluate n) (IndexAccess obj_expr index_expr) v s)"
    using assms(4) by (simp add: execute_node_def execute_assignment_def)
  have rd: "evaluate (Suc n) (IndexAccess obj_expr index_expr) s = (Val VNone, s2)"
    using assms(1-3) by (auto simp: evaluate_node_def index_read_def as_int_def)
  show ?thesis
    using st ex rd by (simp add: execute_handler_def list_at_def print_line_def)
qed

definition one_item_list :: interp where
  "one_item_list =
     \<lparr>runtime = [\<lparr>variables = [(''l'', VList 0)], function_table = []\<rparr>],
       heap = [OList [VInt 7]], output_stream = [], debug = False\<rparr>"

lemma evaluate_l_1: "evaluate 1 (Identifier ''l'') one_item_list = (Val (VList 0), one_item_list)"
  by code_simp

lemma evaluate_3_1:
  "evaluate 1 (NumberLiteral (IntNum 3)) one_item_list = (Val (VInt 3), one_item_list)"
  by code_simp

lemma list_at_one_item_list: "list_at one_item_list 0 = [VInt 7]"
  by code_simp

theorem list_index_out_of_range_witness:
  "execute 2 (Assignment (IndexAccess (Identifier ''l'') (NumberLiteral (IntNum 3)))
                (NumberLiteral (IntNum 3))) one_item_list =
     (Val VNone, print_line ''Index 3 out of range'' one_item_list) \<and>
   list_at (print_line ''Index 3 out of range'' one_item_list) 0 = [VInt 7] \<and>
   evaluate 2 (IndexAccess (Identifier ''l'') (NumberLiteral (IntNum 3))) one_item_list =
     (Val VNone, one_item_list)"
proof -
  have b: "3 < (0::int) \<or> int (length (list_at one_item_list 0)) \<le> 3"
    by (simp add: list_at_one_item_list)
  have d: "\<not> debug one_item_list" by (simp add: one_item_list_def)
  have p: "py_str_int 3 = ''3''" by code_simp
  show ?thesis
    using list_index_out_of_range [OF evaluate_l_1 evaluate_3_1 b evaluate_3_1] d
    by (simp add: p list_at_one_item_list numeral_2_eq_2 del: evaluate.simps execute.simps)
qed
subsection \<open>Calls, errors and the implicit item binding at concrete programs\<close>

text \<open>
  The program
  \<^verbatim>\<open>define reveal with\<close>, \<^verbatim>\<open>  say secret\<close>, \<^verbatim>\<open>end\<close>,
  \<^verbatim>\<open>define caller with secret\<close>, \<^verbatim>\<open>  reveal\<close>, \<^verbatim>\<open>end\<close>, \<^verbatim>\<open>caller 42\<close>.
\<close>

definition reveal_program :: "stmt list" where
  "reveal_program =
     [FunctionDef ''reveal'' [] [SayStatement [Identifier ''secret'']],
      FunctionDef ''caller'' [''secret''] [FunctionCallStatement ''reveal'' []],
      FunctionCallStatement ''caller'' [NumberLiteral (IntNum 42)]]"

text \<open>
  C1, at a concrete program.  \<open>reveal\<close> is defined in the global scope, where no variable
  exists, so the environment it captures is empty; \<open>secret\<close> is a parameter of \<open>caller\<close> only.
  The body of \<open>reveal\<close>, called from \<open>caller\<close>, reads \<open>secret\<close> all the same and prints 42: the
  parent of its scope is the scope of the call site, not the captured environment.
\<close>

theorem call_runs_in_scope_of_call_site:
  "run_file 10 reveal_program (Interpreter_init False) =
     (Exit 0,
      \<lparr>runtime =
         [\<lparr>variables = [],
           function_table =
             [(''reveal'', FunctionObject [] [SayStatement [Identifier ''secret'']] []),
              (''caller'', FunctionObject [''secret''] [FunctionCallStatement ''reveal'' []] [])]\<rparr>],
        heap = [], output_stream = ''42'' @ [CHR 0x0A], debug = False\<rparr>,
      [])"
  by code_simp

text \<open>
  What a call does with the scopes, for every user-defined function: the body runs in
  \<open>child_scope\<close> of the scope current at the call, with the parameters bound in the new
  scope; a \<open>ReturnSignal\<close> gives the result, the end of the body gives \<open>None\<close>, and the scope of
  the call site is current again afterwards.
\<close>

lemma call_user_function_scope:
  assumes "get_function (runtime s) name = Inr fn"
    and "evaluate_all ev arg_exprs s = (Val args, s1)"
  shows "call_user_function ev ex name arg_exprs s =
           (case execute_block ex (fn_body fn)
                   (s1\<lparr>runtime := bind_params 0 (fn_params fn) args
                                       (\<lparr>variables = [],
                                         function_table =
                                           (case runtime s1 of [] \<Rightarrow> [] | f # _ \<Rightarrow> function_table f)\<rparr>
                                        # runtime s1)\<rparr>) of
              (Val _, s3) \<Rightarrow> (Val VNone, s3\<lparr>runtime := runtime s1\<rparr>)
            | (Raise (ReturnSignal v), s3) \<Rightarrow> (Val v, s3\<lparr>runtime := runtime s1\<rparr>)
            | (r, s3) \<Rightarrow> (r, s3\<lparr>runtime := runtime s1\<rparr>))"
  using assms by (simp add: call_user_function_def child_scope_def Let_def and_then_def)

text \<open>
  C5, at a concrete program: \<^verbatim>\<open>say y\<close> with \<open>y\<close> undefined, then \<^verbatim>\<open>say "after"\<close>, debug
  off.  The \<open>NameError\<close> of \<open>Runtime.get\<close> is no \<open>RuntimeError\<close>: it passes the handlers of
  \<open>evaluate\<close> and \<open>execute\<close>, nothing is written to the output stream, the second statement
  is never executed, and \<open>run_file\<close> ends the run with exit code 1.
\<close>

definition undefined_variable_program :: "stmt list" where
  "undefined_variable_program =
     [SayStatement [Identifier ''y''], SayStatement [StringLiteral ''after'']]"

theorem undefined_variable_ends_run:
  "execute 10 (SayStatement [Identifier ''y'']) (Interpreter_init False) =
     (Raise (NameError (''Variable '' @ [CHR 0x27] @ ''y'' @ [CHR 0x27] @ '' not defined'')),
      Interpreter_init False) \<and>
   run_file 10 undefined_variable_program (Interpreter_init False) =
     (Exit 1, Interpreter_init False,
      ''Runtime error: Variable '' @ [CHR 0x27] @ ''y'' @ [CHR 0x27] @ '' not defined'' @ [CHR 0x0A])"
  by code_simp

text \<open>Without the first statement the program prints \<open>after\<close>.\<close>

lemma say_after_prints:
  "run_file 10 [SayStatement [StringLiteral ''after'']] (Interpreter_init False) =
     (Exit 0, print_line ''after'' (Interpreter_init False), [])"
  by code_simp

text \<open>
  C8, at a concrete state: the current scope binds \<open>item\<close> to Nothing.  After
  \<^verbatim>\<open>evens is filter [1] where true\<close>, and likewise after \<^verbatim>\<open>evens is map [1] using true\<close>,
  the scope has no binding of \<open>item\<close> any more: \<open>old_item is not None\<close> takes the binding for
  absent and the loop removes it.
\<close>

definition item_is_nothing :: interp where
  "item_is_nothing =
     \<lparr>runtime = [\<lparr>variables = [(''item'', VNone)], function_table = []\<rparr>],
       heap = [], output_stream = [], debug = False\<rparr>"

theorem filter_map_drop_item_bound_to_nothing:
  "execute 10 (Assignment (Identifier ''item'') NothingLiteral) (Interpreter_init False) =
     (Val VNone, item_is_nothing) \<and>
   variables_get (runtime item_is_nothing) ''item'' = Some VNone \<and>
   execute 10 (Assignment (Identifier ''evens'')
       (FilterExpression (ListLiteral [NumberLiteral (IntNum 1)]) (BooleanLiteral True)))
     item_is_nothing =
     (Val VNone,
      \<lparr>runtime = [\<lparr>variables = [(''evens'', VList 1)], function_table = []\<rparr>],
        heap = [OList [VInt 1], OList [VInt 1]], output_stream = [], debug = False\<rparr>) \<and>
   execute 10 (Assignment (Identifier ''evens'')
       (MapExpression (ListLiteral [NumberLiteral (IntNum 1)]) (BooleanLiteral True)))
     item_is_nothing =
     (Val VNone,
      \<lparr>runtime = [\<lparr>variables = [(''evens'', VList 1)], function_table = []\<rparr>],
        heap = [OList [VInt 1], OList [VBool True]], output_stream = [], debug = False\<rparr>)"
  by code_simp

text \<open>A binding of \<open>item\<close> to another value is put back, and the implicit binding is seen by
  the condition.\<close>

lemma filter_keeps_item_bound_to_string:
  "execute 10 (Assignment (Identifier ''big'')
       (FilterExpression (ListLiteral [NumberLiteral (IntNum 1), NumberLiteral (IntNum 2)])
          (BinaryOp (Identifier ''item'') ''is_greater_than'' (NumberLiteral (IntNum 1)))))
     \<lparr>runtime = [\<lparr>variables = [(''item'', VStr ''outer'')], function_table = []\<rparr>],
       heap = [], output_stream = [], debug = False\<rparr> =
   (Val VNone,
    \<lparr>runtime = [\<lparr>variables = [(''item'', VStr ''outer''), (''big'', VList 1)],
                 function_table = []\<rparr>],
      heap = [OList [VInt 1, VInt 2], OList [VInt 2]], output_stream = [], debug = False\<rparr>)"
  by code_simp

section \<open>Properties of lexer and parser\<close>

text \<open>
  \<open>parse\<close> does not return from a parser that stands on a token which is not \<open>EOF\<close>, not
  \<open>NEWLINE\<close> and starts no statement: \<open>parse_statement\<close> returns \<open>None\<close> and leaves the
  parser where it is, and the loop of \<open>parse\<close> calls it again.
\<close>

lemma parse_loop_returns:
  assumes "parse_loop statements P = Some r"
  shows "\<not> (\<not> match_types [''EOF''] P \<and> parse_statement P = Some (Parsed None P) \<and>
            skip_newlines P = P)"
proof -
  have "(\<lambda>(a, b) y. \<not> (\<not> match_types [''EOF''] b \<and> parse_statement b = Some (Parsed None b) \<and>
            skip_newlines b = b)) (statements, P) r"
    by (rule parse_loop.raw_induct [OF _ assms]) (auto split: if_splits, blast)
  then show ?thesis by simp
qed

lemma parse_loop_stuck:
  assumes "\<not> match_types [''EOF''] P" "parse_statement P = Some (Parsed None P)"
    "skip_newlines P = P"
  shows "parse_loop statements P = None"
proof (cases "parse_loop statements P")
  case None
  then show ?thesis .
next
  case (Some r)
  from parse_loop_returns [OF Some] assms show ?thesis by simp
qed

text \<open>The program of C3 and the tokens the lexer makes of it.\<close>

definition precedence_program :: string where
  "precedence_program = ''x is 2 plus 3 times 4'' @ [CHR 0x0A] @ ''say x''"

definition precedence_tokens :: "token list" where
  "precedence_tokens =
     [Token ''IDENTIFIER'' (StrValue ''x'') 1 1, Token ''IS'' NoValue 1 3,
      Token ''NUMBER'' (NumValue (IntNum 2)) 1 6, Token ''PLUS'' NoValue 1 8,
      Token ''NUMBER'' (NumValue (IntNum 3)) 1 13, Token ''TIMES'' NoValue 1 15,
      Token ''NUMBER'' (NumValue (IntNum 4)) 1 21, Token ''NEWLINE'' NoValue 1 22,
      Token ''SAY'' NoValue 2 1, Token ''IDENTIFIER'' (StrValue ''x'') 2 5,
      Token ''EOF'' NoValue 2 6]"

text \<open>The same program with the left operand of \<open>times\<close> in a variable.\<close>

definition operand_program :: string where
  "operand_program =
     ''y is 3'' @ [CHR 0x0A] @ ''x is 2 plus y times 4'' @ [CHR 0x0A] @ ''say x''"

lemma tokenize_precedence_program: "tokenize precedence_program = Some (Inr precedence_tokens)"
  by code_simp

lemma first_statement:
  "parse_statement (skip_newlines (Parser_init precedence_tokens)) =
     Some (Parsed (Some (Assignment (Identifier ''x'')
                    (BinaryOp (NumberLiteral (IntNum 2)) ''plus'' (NumberLiteral (IntNum 3)))))
            \<lparr>tokens = precedence_tokens, ppos = 5\<rparr>)"
  by code_simp

lemma at_times:
  "\<not> match_types [''EOF''] (skip_newlines (Parser_init precedence_tokens)) \<and>
   skip_newlines \<lparr>tokens = precedence_tokens, ppos = 5\<rparr> = \<lparr>tokens = precedence_tokens, ppos = 5\<rparr> \<and>
   \<not> match_types [''EOF''] \<lparr>tokens = precedence_tokens, ppos = 5\<rparr> \<and>
   parse_statement \<lparr>tokens = precedence_tokens, ppos = 5\<rparr> =
     Some (Parsed None \<lparr>tokens = precedence_tokens, ppos = 5\<rparr>)"
  by code_simp

lemma parse_precedence_tokens: "parse precedence_tokens = None"
proof -
  have "parse_loop [] (skip_newlines (Parser_init precedence_tokens)) =
          parse_loop [Assignment (Identifier ''x'')
                        (BinaryOp (NumberLiteral (IntNum 2)) ''plus'' (NumberLiteral (IntNum 3)))]
            \<lparr>tokens = precedence_tokens, ppos = 5\<rparr>"
    by (subst parse_loop.simps) (simp add: first_statement at_times)
  also have "\<dots> = None"
    using at_times by (intro parse_loop_stuck) simp_all
  finally show ?thesis by (simp add: parse_def)
qed

lemma front_end_precedence_program: "front_end precedence_program = None"
  by (simp add: front_end_def tokenize_precedence_program parse_precedence_tokens)

definition operand_statements :: "stmt list" where
  "operand_statements =
     [Assignment (Identifier ''y'') (NumberLiteral (IntNum 3)),
      Assignment (Identifier ''x'')
        (BinaryOp (NumberLiteral (IntNum 2)) ''plus''
           (BinaryOp (Identifier ''y'') ''times'' (NumberLiteral (IntNum 4)))),
      SayStatement [Identifier ''x'']]"

lemma token_types_precedence_program:
  "map_option (map_sum id (map ttype)) (tokenize precedence_program) =
     Some (Inr [''IDENTIFIER'', ''IS'', ''NUMBER'', ''PLUS'', ''NUMBER'', ''TIMES'', ''NUMBER'',
                ''NEWLINE'', ''SAY'', ''IDENTIFIER'', ''EOF''])"
  by code_simp

lemma token_types_operand_program:
  "map_option (map_sum id (map ttype)) (tokenize operand_program) =
     Some (Inr [''IDENTIFIER'', ''IS'', ''NUMBER'', ''NEWLINE'',
                ''IDENTIFIER'', ''IS'', ''NUMBER'', ''PLUS'', ''IDENTIFIER'', ''TIMES_OP'',
                ''NUMBER'', ''NEWLINE'', ''SAY'', ''IDENTIFIER'', ''EOF''])"
  by code_simp

lemma front_end_operand_program: "front_end operand_program = Some (Program operand_statements)"
  by code_simp

lemma run_operand_statements:
  "run_file 10 operand_statements (Interpreter_init False) =
     (Exit 0,
      \<lparr>runtime = [\<lparr>variables = [(''y'', VInt 3), (''x'', VInt 14)], function_table = []\<rparr>],
        heap = [], output_stream = ''14'' @ [CHR 0x0A], debug = False\<rparr>,
      [])"
  by code_simp

lemma parse_sum_of_product:
  "parse_expression (Parser_init
       [Token ''NUMBER'' (NumValue a) l1 c1, Token ''PLUS'' NoValue l2 c2,
        Token ''NUMBER'' (NumValue b) l3 c3, Token ''TIMES_OP'' NoValue l4 c4,
        Token ''NUMBER'' (NumValue c) l5 c5, Token ''EOF'' NoValue l6 c6]) =
     Some (Parsed (BinaryOp (NumberLiteral a) ''plus''
                     (BinaryOp (NumberLiteral b) ''times'' (NumberLiteral c)))
            \<lparr>tokens =
               [Token ''NUMBER'' (NumValue a) l1 c1, Token ''PLUS'' NoValue l2 c2,
                Token ''NUMBER'' (NumValue b) l3 c3, Token ''TIMES_OP'' NoValue l4 c4,
                Token ''NUMBER'' (NumValue c) l5 c5, Token ''EOF'' NoValue l6 c6],
              ppos = 5\<rparr>)"
  by (simp add: parse_expression_def parse_or_def parse_and_def parse_not_def
        parse_comparison_def parse_arithmetic_def parse_term_def parse_factor_def
        then_parse_def match_types_def current_token_def advance_token_def Parser_init_def
        Token_def number_value_def or_loop.simps and_loop.simps arithmetic_loop.simps
        term_loop.simps)

lemma evaluate_sum_of_product:
  "evaluate (Suc (Suc (Suc n)))
     (BinaryOp (NumberLiteral (IntNum i)) ''plus''
        (BinaryOp (NumberLiteral (IntNum j)) ''times'' (NumberLiteral (IntNum k)))) s =
   (Val (VInt (i + j * k)), s)"
  by (simp add: evaluate_node_def evaluate_binary_op_def evaluate_handler_def and_then_def
        py_arith_def as_int_def)

text \<open>
  C3, as stated, fails on its own program.  The word \<open>times\<close> of \<open>x is 2 plus 3 times 4\<close>
  comes after the digit \<open>3\<close>, and the look-back of the lexer makes it the loop keyword
  \<open>TIMES\<close>, not \<open>TIMES_OP\<close>; the front end then never hands a program to the evaluator, so
  nothing is printed.
\<close>

theorem times_after_digit_counterexample:
  "map_option (map_sum id (map ttype)) (tokenize precedence_program) =
     Some (Inr [''IDENTIFIER'', ''IS'', ''NUMBER'', ''PLUS'', ''NUMBER'', ''TIMES'', ''NUMBER'',
                ''NEWLINE'', ''SAY'', ''IDENTIFIER'', ''EOF'']) \<and>
   ''TIMES'' \<noteq> ''TIMES_OP'' \<and>
   front_end precedence_program = None"
  using token_types_precedence_program front_end_precedence_program by simp

text \<open>
  C3, as amended.  In \<open>x is 2 plus 3 times 4\<close> the word \<open>times\<close> follows the digit \<open>3\<close> and
  is lexed as the loop keyword \<open>TIMES\<close>.  In \<open>x is 2 plus y times 4\<close>, where the identifier
  \<open>y\<close> precedes it, it is lexed as the multiplication operator \<open>TIMES_OP\<close>, and
  multiplication binds tighter than addition: the program \<open>y is 3\<close>, \<open>x is 2 plus y times 4\<close>,
  \<open>say x\<close> is parsed with the product as the right operand of \<open>plus\<close> and prints exactly
  \<open>14\<close> followed by a newline.  Parser and evaluator do the same for all numbers: the
  tokens \<open>NUMBER a, PLUS, NUMBER b, TIMES_OP, NUMBER c, EOF\<close> are parsed as
  \<open>a plus (b times c)\<close>, and for integers that expression evaluates to \<open>a + b * c\<close>.
\<close>

theorem times_operator_binds_tighter:
  "map_option (map_sum id (map ttype)) (tokenize precedence_program) =
     Some (Inr [''IDENTIFIER'', ''IS'', ''NUMBER'', ''PLUS'', ''NUMBER'', ''TIMES'', ''NUMBER'',
                ''NEWLINE'', ''SAY'', ''IDENTIFIER'', ''EOF'']) \<and>
   map_option (map_sum id (map ttype)) (tokenize operand_program) =
     Some (Inr [''IDENTIFIER'', ''IS'', ''NUMBER'', ''NEWLINE'',
                ''IDENTIFIER'', ''IS'', ''NUMBER'', ''PLUS'', ''IDENTIFIER'', ''TIMES_OP'',
                ''NUMBER'', ''NEWLINE'', ''SAY'', ''IDENTIFIER'', ''EOF'']) \<and>
   front_end operand_program =
     Some (Program
       [Assignment (Identifier ''y'') (NumberLiteral (IntNum 3)),
        Assignment (Identifier ''x'')
          (BinaryOp (NumberLiteral (IntNum 2)) ''plus''
             (BinaryOp (Identifier ''y'') ''times'' (NumberLiteral (IntNum 4)))),
        SayStatement [Identifier ''x'']]) \<and>
   run_file 10 operand_statements (Interpreter_init False) =
     (Exit 0,
      \<lparr>runtime = [\<lparr>variables = [(''y'', VInt 3), (''x'', VInt 14)], function_table = []\<rparr>],
        heap = [], output_stream = ''14'' @ [CHR 0x0A], debug = False\<rparr>,
      []) \<and>
   parse_expression (Parser_init
       [Token ''NUMBER'' (NumValue a) l1 c1, Token ''PLUS'' NoValue l2 c2,
        Token ''NUMBER'' (NumValue b) l3 c3, Token ''TIMES_OP'' NoValue l4 c4,
        Token ''NUMBER'' (NumValue c) l5 c5, Token ''EOF'' NoValue l6 c6]) =
     Some (Parsed (BinaryOp (NumberLiteral a) ''plus''
                     (BinaryOp (NumberLiteral b) ''times'' (NumberLiteral c)))
            \<lparr>tokens =
               [Token ''NUMBER'' (NumValue a) l1 c1, Token ''PLUS'' NoValue l2 c2,
                Token ''NUMBER'' (NumValue b) l3 c3, Token ''TIMES_OP'' NoValue l4 c4,
                Token ''NUMBER'' (NumValue c) l5 c5, Token ''EOF'' NoValue l6 c6],
              ppos = 5\<rparr>) \<and>
   evaluate (Suc (Suc (Suc n)))
     (BinaryOp (NumberLiteral (IntNum i)) ''plus''
        (BinaryOp (NumberLiteral (IntNum j)) ''times'' (NumberLiteral (IntNum k)))) s =
   (Val (VInt (i + j * k)), s)"
proof (intro conjI)
  show "front_end operand_program =
     Some (Program
       [Assignment (Identifier ''y'') (NumberLiteral (IntNum 3)),
        Assignment (Identifier ''x'')
          (BinaryOp (NumberLiteral (IntNum 2)) ''plus''
             (BinaryOp (Identifier ''y'') ''times'' (NumberLiteral (IntNum 4)))),
        SayStatement [Identifier ''x'']])"
    using front_end_operand_program unfolding operand_statements_def .
qed (rule token_types_precedence_program token_types_operand_program run_operand_statements
       parse_sum_of_product evaluate_sum_of_product)+

theorem times_operator_binds_tighter_witness:
  "front_end operand_program = Some (Program operand_statements) \<and>
   evaluate 3
     (BinaryOp (NumberLiteral (IntNum 2)) ''plus''
        (BinaryOp (NumberLiteral (IntNum 3)) ''times'' (NumberLiteral (IntNum 4))))
     (Interpreter_init False) =
   (Val (VInt 14), Interpreter_init False)"
  using times_operator_binds_tighter [of _ _ _ _ _ _ _ _ _ _ _ _ _ _ _ 0 2 3 4 "Interpreter_init False"]
  by (simp del: evaluate.simps execute.simps add: numeral_3_eq_3 operand_statements_def)

end
